theory Spec2Isabelle
  imports Main
begin

section \<open>JavaScript values\<close>

text \<open>
  The engine of \<^verbatim>\<open>SurveyEngine.js\<close> reads survey fields that are strings or numbers
  (\<^verbatim>\<open>percentage: "100"\<close>, \<^verbatim>\<open>priority: 10\<close>) and coerces them with \<^verbatim>\<open>parseInt\<close>,
  \<^verbatim>\<open>String\<close>, comparisons and truthiness tests. A number is \<^verbatim>\<open>NaN\<close> or an integer: every
  number the engine computes comes out of \<^verbatim>\<open>parseInt\<close> or is a product or sum of
  integers. Integers are unbounded here; the doubles of JavaScript represent them exactly
  below \<open>2 ^ 53\<close>. A fraction or an infinity is not a number of this model; where the
  engine coerces a value with \<^verbatim>\<open>parseInt\<close> or compares it with 0, the string of its
  digits (\<^verbatim>\<open>"0.5"\<close>, \<^verbatim>\<open>"Infinity"\<close>) goes the same way and stands for it.
\<close>

datatype number = NaN | Num int

datatype jsval = Undefined | Null | Bool bool | Number number | Str string

datatype js_error = SyntaxError | TypeError

text \<open>\<^verbatim>\<open>!!v\<close>: the falsy values are undefined, null, false, 0, NaN and the empty string.\<close>

fun truthy :: "jsval \<Rightarrow> bool" where
  "truthy Undefined = False"
| "truthy Null = False"
| "truthy (Bool b) = b"
| "truthy (Number NaN) = False"
| "truthy (Number (Num n)) = (n \<noteq> 0)"
| "truthy (Str s) = (s \<noteq> [])"

text \<open>\<^verbatim>\<open>typeof v === "number"\<close>.\<close>

fun is_number :: "jsval \<Rightarrow> bool" where
  "is_number (Number n) = True"
| "is_number _ = False"

text \<open>\<^verbatim>\<open>a > b\<close> on numbers: false as soon as one side is \<^verbatim>\<open>NaN\<close>.\<close>

fun num_gt :: "number \<Rightarrow> number \<Rightarrow> bool" where
  "num_gt (Num a) (Num b) = (a > b)"
| "num_gt _ _ = False"

subsection \<open>String(v)\<close>

definition digit_char :: "nat \<Rightarrow> char" where
  "digit_char d = ''0123456789'' ! d"

fun digits_of :: "nat \<Rightarrow> string" where
  "digits_of n = (if n < 10 then [digit_char n] else digits_of (n div 10) @ [digit_char (n mod 10)])"

declare digits_of.simps [simp del]

text \<open>
  From \<open>10 ^ 21\<close> on, \<^verbatim>\<open>String\<close> prints a number in exponent form: the first digit, the
  other digits up to the last one that is not 0 behind a point, and the exponent, as in
  \<^verbatim>\<open>1e+21\<close> and \<^verbatim>\<open>2.5e+21\<close>. The digits are those of the integer; they are the ones
  JavaScript prints when there are no more than fifteen of them before the closing zeros.
\<close>

definition strip_zeros :: "string \<Rightarrow> string" where
  "strip_zeros ds = rev (dropWhile (\<lambda>c. c = CHR ''0'') (rev ds))"

definition exponent_form :: "nat \<Rightarrow> string" where
  "exponent_form n =
     (case digits_of n of
        [] \<Rightarrow> []
      | d # ds \<Rightarrow>
          d # (if strip_zeros ds = [] then [] else CHR ''.'' # strip_zeros ds)
            @ ''e+'' @ digits_of (length ds))"

definition numeral_of :: "nat \<Rightarrow> string" where
  "numeral_of n = (if n < 10 ^ 21 then digits_of n else exponent_form n)"

fun NumberToString :: "number \<Rightarrow> string" where
  "NumberToString NaN = ''NaN''"
| "NumberToString (Num n) = (if n < 0 then CHR ''-'' # numeral_of (nat (- n)) else numeral_of (nat n))"

fun ToString :: "jsval \<Rightarrow> string" where
  "ToString Undefined = ''undefined''"
| "ToString Null = ''null''"
| "ToString (Bool b) = (if b then ''true'' else ''false'')"
| "ToString (Number n) = NumberToString n"
| "ToString (Str s) = s"

subsection \<open>parseInt(v, 10) and trim\<close>

text \<open>
  White space is the ASCII part of what \<^verbatim>\<open>trim\<close> and \<^verbatim>\<open>parseInt\<close> skip: space, tab,
  line feed, vertical tab, form feed, carriage return.
\<close>

definition is_space :: "char \<Rightarrow> bool" where
  "is_space c = (c \<in> set [CHR '' '', CHR 0x09, CHR 0x0A, CHR 0x0B, CHR 0x0C, CHR 0x0D])"

definition is_digit :: "char \<Rightarrow> bool" where
  "is_digit c = (c \<in> set ''0123456789'')"

definition digit_val :: "char \<Rightarrow> nat" where
  "digit_val c = of_char c - 48"

definition digits_value :: "string \<Rightarrow> nat" where
  "digits_value cs = foldl (\<lambda>a c. 10 * a + digit_val c) 0 cs"

text \<open>
  \<^verbatim>\<open>parseInt(v, 10)\<close>: the argument is turned into a string, leading white space is
  dropped, one sign is read, then the longest run of decimal digits; no digit gives
  \<^verbatim>\<open>NaN\<close>. With radix 10 no \<^verbatim>\<open>0x\<close> prefix is stripped.
\<close>

definition parseInt :: "jsval \<Rightarrow> number" where
  "parseInt v =
     (let S = dropWhile is_space (ToString v);
          sign = (case S of c # _ \<Rightarrow> if c = CHR ''-'' then - 1 else 1 | [] \<Rightarrow> (1::int));
          S' = (case S of c # rest \<Rightarrow> if c = CHR ''-'' \<or> c = CHR ''+'' then rest else S | [] \<Rightarrow> S);
          Z = takeWhile is_digit S'
      in if Z = [] then NaN else Num (sign * int (digits_value Z)))"

definition trim :: "string \<Rightarrow> string" where
  "trim s = rev (dropWhile is_space (rev (dropWhile is_space s)))"

text \<open>\<^verbatim>\<open>s.split(",")\<close>; the first argument holds the piece being read, reversed.\<close>

fun split_comma :: "string \<Rightarrow> string \<Rightarrow> string list" where
  "split_comma cur [] = [rev cur]"
| "split_comma cur (c # cs) =
     (if c = CHR '','' then rev cur # split_comma [] cs else split_comma (c # cur) cs)"

subsection \<open>v > 0\<close>

text \<open>
  \<^verbatim>\<open>v > 0\<close> turns \<open>v\<close> into a number and compares: undefined is \<^verbatim>\<open>NaN\<close>, null is 0,
  true is 1. A string is trimmed; the empty string is 0; what remains has to be, as a
  whole, \<^verbatim>\<open>Infinity\<close> or a decimal literal (digits, a point, digits, an exponent) behind an
  optional sign, or an unsigned binary, octal or hexadecimal integer (\<^verbatim>\<open>0b\<close>, \<^verbatim>\<open>0o\<close>,
  \<^verbatim>\<open>0x\<close>); anything else is \<^verbatim>\<open>NaN\<close>. The functions below answer whether the number so
  written is above 0. A decimal literal is, when mantissa and exponent give
  \<open>m * 10 ^ E\<close>: it is rounded to a double, and becomes 0 exactly when it is at most
  \<open>2 ^ - 1075\<close>, half the smallest double above 0.
\<close>

definition radix_positive :: "string \<Rightarrow> string \<Rightarrow> bool" where
  "radix_positive alphabet ds =
     (ds \<noteq> [] \<and> list_all (\<lambda>c. c \<in> set alphabet) ds \<and> \<not> list_all (\<lambda>c. c = CHR ''0'') ds)"

text \<open>The exponent behind a mantissa: nothing, or \<^verbatim>\<open>e\<close>, an optional sign and digits.\<close>

definition exponent_part :: "string \<Rightarrow> int option" where
  "exponent_part r =
     (case r of
        [] \<Rightarrow> Some 0
      | c # cs \<Rightarrow>
          if c = CHR ''e'' \<or> c = CHR ''E'' then
            (let sign = (case cs of d # _ \<Rightarrow> if d = CHR ''-'' then - 1 else 1 | [] \<Rightarrow> (1::int));
                 ds = (case cs of d # rest \<Rightarrow> if d = CHR ''-'' \<or> d = CHR ''+'' then rest else cs | [] \<Rightarrow> cs)
             in if ds \<noteq> [] \<and> list_all is_digit ds then Some (sign * int (digits_value ds)) else None)
          else None)"

definition decimal_positive :: "string \<Rightarrow> bool" where
  "decimal_positive u =
     (if u = ''Infinity'' then True
      else
        let ip = takeWhile is_digit u;
            r1 = dropWhile is_digit u;
            fp = (case r1 of c # r \<Rightarrow> if c = CHR ''.'' then takeWhile is_digit r else [] | [] \<Rightarrow> []);
            r2 = (case r1 of c # r \<Rightarrow> if c = CHR ''.'' then dropWhile is_digit r else r1 | [] \<Rightarrow> [])
        in if ip = [] \<and> fp = [] then False
           else (case exponent_part r2 of
                   None \<Rightarrow> False
                 | Some e \<Rightarrow>
                     let m = digits_value (ip @ fp);
                         E = e - int (length fp)
                     in 0 < m \<and> (0 \<le> E \<or> 10 ^ nat (- E) < m * 2 ^ 1075)))"

definition string_positive :: "string \<Rightarrow> bool" where
  "string_positive str =
     (case trim str of
        [] \<Rightarrow> False
      | c # rest \<Rightarrow>
          if c = CHR ''-'' then False
          else if c = CHR ''+'' then decimal_positive rest
          else if c = CHR ''0'' then
            (case rest of
               [] \<Rightarrow> False
             | x # ds \<Rightarrow>
                 if x = CHR ''x'' \<or> x = CHR ''X'' then radix_positive ''0123456789abcdefABCDEF'' ds
                 else if x = CHR ''o'' \<or> x = CHR ''O'' then radix_positive ''01234567'' ds
                 else if x = CHR ''b'' \<or> x = CHR ''B'' then radix_positive ''01'' ds
                 else decimal_positive (c # rest))
          else decimal_positive (c # rest))"

fun gt_zero :: "jsval \<Rightarrow> bool" where
  "gt_zero Undefined = False"
| "gt_zero Null = False"
| "gt_zero (Bool b) = b"
| "gt_zero (Number n) = num_gt n (Num 0)"
| "gt_zero (Str str) = string_positive str"

section \<open>Data model\<close>

text \<open>
  A survey definition as \<^verbatim>\<open>setSurveyConfigurations\<close> receives it. The engine reads
  four fields; the others (\<^verbatim>\<open>formId\<close>, \<^verbatim>\<open>survey_name\<close>, \<^verbatim>\<open>display\<close>, \<^verbatim>\<open>delay\<close>) pass
  through untouched and are left out.
\<close>

record survey =
  survey_id :: jsval
  priority :: jsval
  percentage :: jsval
  quarantine :: jsval

text \<open>
  The object \<^verbatim>\<open>{ value: ..., expiry: ... }\<close> that \<^verbatim>\<open>setWithExpiry\<close> serialises. The
  expiry is absent or an integer number of milliseconds; a missing value member reads as
  \<open>Undefined\<close>.
\<close>

record item =
  item_value :: jsval
  item_expiry :: "int option"

text \<open>
  A string held by \<^verbatim>\<open>localStorage\<close> or \<^verbatim>\<open>sessionStorage\<close>, named by what
  \<^verbatim>\<open>getWithExpiry\<close> makes of it: the empty string (falsy), a text that
  \<^verbatim>\<open>JSON.parse\<close> rejects with a SyntaxError, the text \<^verbatim>\<open>null\<close> (it parses, and reading
  \<^verbatim>\<open>item.expiry\<close> on it is a TypeError), or the text of an object.
  \<^verbatim>\<open>JSON.stringify\<close> of an item is the text \<open>JsonRecord\<close> of that item. The text of a
  number, string, boolean or array has neither member and reads like
  \<open>JsonRecord \<lparr>item_value = Undefined, item_expiry = None\<rparr>\<close>.
\<close>

datatype stored = Blank | NotJson | JsonNull | JsonRecord item

text \<open>The events of \<^verbatim>\<open>emit(type, payload)\<close>, one constructor per type, payload as arguments.\<close>

datatype event =
    survey_missing_config string
  | survey_chosen jsval jsval
  | survey_none_chosen "string list"
  | survey_quarantined string jsval string
  | survey_quarantined_block jsval
  | survey_quarantine_set_on_sample jsval number
  | survey_included_by_sampling jsval number
  | survey_excluded_quarantined_user_sampling jsval number
  | survey_excluded_not_quarantined_event_sampling jsval number

text \<open>What a callback does when it is called: it returns, or it throws.\<close>

datatype outcome = Returned | Threw

text \<open>\<^verbatim>\<open>this.config\<close>; a callback that is not a function is \<open>None\<close>.\<close>

record config =
  userSampling :: bool
  quarantineKeyPrefix :: string
  onEvent :: "(event \<Rightarrow> outcome) option"
  logger :: "(string \<Rightarrow> outcome) option"

text \<open>
  Everything a call can read or change: the registry (\<^verbatim>\<open>chooseSurvey\<close> normalises
  \<^verbatim>\<open>priority\<close> in place), the two stores, the host's clock and random source, and the
  calls the callbacks received.
  \<^item> \<open>surveyConfigurations s surveyId\<close> is what \<^verbatim>\<open>this.surveyConfigurations[surveyId]\<close>
    evaluates to, own property or inherited: \<open>None\<close> when it is absent or falsy, and
    otherwise the four fields as they read on it. On a registry written as an object
    literal, \<^verbatim>\<open>constructor\<close> and the other names of \<^verbatim>\<open>Object.prototype\<close> read as an
    entry with four undefined fields, and so does an entry that is a string, a number or
    \<^verbatim>\<open>true\<close>.
  \<^item> \<open>frozen s\<close> holds the identifiers whose entry refuses the assignment
    \<^verbatim>\<open>cfg.priority = ...\<close>: a frozen object, an object whose \<^verbatim>\<open>priority\<close> is read-only,
    a string, a number or \<^verbatim>\<open>true\<close>. The class body is strict code, so the refused
    assignment throws a TypeError.
  \<^item> \<open>clock s n\<close> is what the \<open>n\<close>-th \<^verbatim>\<open>new Date().getTime()\<close> returns; \<open>ticks\<close> counts
    the readings made so far.
  \<^item> \<open>random s n\<close> is the \<open>n\<close>-th value of \<^verbatim>\<open>parseInt(Math.random() * 100, 10)\<close>;
    \<open>draws\<close> counts the draws made so far. \<^verbatim>\<open>Math.random()\<close> lies in \<open>[0, 1)\<close>, so the
    host delivers values from 0 to 99.
\<close>

record state =
  surveyConfigurations :: "string \<rightharpoonup> survey"
  frozen :: "string set"
  localStorage :: "string \<rightharpoonup> stored"
  sessionStorage :: "string \<rightharpoonup> stored"
  clock :: "nat \<Rightarrow> int"
  ticks :: nat
  random :: "nat \<Rightarrow> nat"
  draws :: nat
  events :: "event list"
  messages :: "string list"

text \<open>The argument of \<^verbatim>\<open>chooseSurvey\<close>: an array of values, or one value (a string, a number, nothing).\<close>

datatype candidates = Array "jsval list" | Scalar jsval

section \<open>The engine\<close>

subsection \<open>Callbacks\<close>

text \<open>
  \<^verbatim>\<open>emit\<close> and \<^verbatim>\<open>log\<close> call the hook inside \<^verbatim>\<open>try\<close>; the \<^verbatim>\<open>catch\<close> block is empty.
  The call is recorded whatever its outcome.
\<close>

definition emit :: "config \<Rightarrow> event \<Rightarrow> state \<Rightarrow> state" where
  "emit c ev s =
     (case onEvent c of
        None \<Rightarrow> s
      | Some f \<Rightarrow>
          (case f ev of
             Returned \<Rightarrow> s\<lparr>events := events s @ [ev]\<rparr>
           | Threw \<Rightarrow> s\<lparr>events := events s @ [ev]\<rparr>))"

definition log :: "config \<Rightarrow> string \<Rightarrow> state \<Rightarrow> state" where
  "log c msg s =
     (case logger c of
        None \<Rightarrow> s
      | Some f \<Rightarrow>
          (case f msg of
             Returned \<Rightarrow> s\<lparr>messages := messages s @ [msg]\<rparr>
           | Threw \<Rightarrow> s\<lparr>messages := messages s @ [msg]\<rparr>))"

subsection \<open>Storage helpers\<close>

text \<open>
  \<^verbatim>\<open>setWithExpiry(key, value, days)\<close>. The engine calls it with the result of
  \<^verbatim>\<open>parseInt\<close> or with 0, so \<open>days\<close> is \<^verbatim>\<open>NaN\<close> or an integer.
\<close>

definition setWithExpiry :: "string \<Rightarrow> jsval \<Rightarrow> number \<Rightarrow> state \<Rightarrow> state" where
  "setWithExpiry key v days s =
     (case days of
        Num d \<Rightarrow>
          if d \<noteq> 0 then
            let now = clock s (ticks s);
                ttl = d * 24 * 60 * 60 * 1000;
                it = \<lparr>item_value = v, item_expiry = Some (now + ttl)\<rparr>
            in s\<lparr>ticks := Suc (ticks s),
                 localStorage := (localStorage s)(key \<mapsto> JsonRecord it)\<rparr>
          else s\<lparr>sessionStorage := (sessionStorage s)(key \<mapsto> JsonRecord \<lparr>item_value = v, item_expiry = None\<rparr>)\<rparr>
      | NaN \<Rightarrow> s\<lparr>sessionStorage := (sessionStorage s)(key \<mapsto> JsonRecord \<lparr>item_value = v, item_expiry = None\<rparr>)\<rparr>)"

text \<open>\<^verbatim>\<open>localStorage.getItem(key) || sessionStorage.getItem(key)\<close>: the empty string is falsy.\<close>

definition getItems :: "string \<Rightarrow> state \<Rightarrow> stored option" where
  "getItems key s =
     (case localStorage s key of
        None \<Rightarrow> sessionStorage s key
      | Some Blank \<Rightarrow> sessionStorage s key
      | Some t \<Rightarrow> Some t)"

definition getWithExpiry :: "string \<Rightarrow> state \<Rightarrow> (js_error + jsval) \<times> state" where
  "getWithExpiry key s =
     (case getItems key s of
        None \<Rightarrow> (Inr Null, s)
      | Some Blank \<Rightarrow> (Inr Null, s)
      | Some NotJson \<Rightarrow> (Inl SyntaxError, s)
      | Some JsonNull \<Rightarrow> (Inl TypeError, s\<lparr>ticks := Suc (ticks s)\<rparr>)
      | Some (JsonRecord it) \<Rightarrow>
          (let now = clock s (ticks s);
               s1 = s\<lparr>ticks := Suc (ticks s)\<rparr>
           in case item_expiry it of
                None \<Rightarrow> (Inr (item_value it), s1)
              | Some e \<Rightarrow>
                  if e \<noteq> 0 \<and> now > e
                  then (Inr Null, s1\<lparr>localStorage := (localStorage s1)(key := None)\<rparr>)
                  else (Inr (item_value it), s1)))"

subsection \<open>Quarantine and sampling\<close>

definition storage_key :: "config \<Rightarrow> jsval \<Rightarrow> string" where
  "storage_key c sid = quarantineKeyPrefix c @ ToString sid"

definition passesStorageRules :: "config \<Rightarrow> survey \<Rightarrow> state \<Rightarrow> (js_error + bool) \<times> state" where
  "passesStorageRules c survey s =
     (let key = storage_key c (survey_id survey) in
      case getWithExpiry key s of
        (Inl e, s1) \<Rightarrow> (Inl e, s1)
      | (Inr v, s1) \<Rightarrow>
          if truthy v then
            (Inr False,
             log c (''SURVEY: survey '' @ ToString (survey_id survey) @ '' is quarantined'')
               (emit c (survey_quarantined_block (survey_id survey)) s1))
          else
            let pct = (case parseInt (percentage survey) of NaN \<Rightarrow> 0 | Num p \<Rightarrow> p);
                draw = int (random s1 (draws s1));
                s2 = s1\<lparr>draws := Suc (draws s1)\<rparr>
            in if draw \<le> pct then
                 let qDays = parseInt (quarantine survey);
                     s3 = (if num_gt qDays (Num 0)
                           then emit c (survey_quarantine_set_on_sample (survey_id survey) qDays)
                                  (setWithExpiry key (Str ''true'') qDays s2)
                           else s2)
                 in (Inr True, emit c (survey_included_by_sampling (survey_id survey) (Num pct)) s3)
               else if userSampling c then
                 let qDays2 = parseInt (quarantine survey);
                     s3 = (if num_gt qDays2 (Num 0)
                           then setWithExpiry key (Str ''true'') qDays2 s2
                           else s2)
                 in (Inr False,
                     log c (''SURVEY: survey '' @ ToString (survey_id survey)
                              @ '' is excluded by sampling, and quarantined (user sampling)'')
                       (emit c (survey_excluded_quarantined_user_sampling (survey_id survey) (Num pct)) s3))
               else
                 (Inr False,
                  log c (''SURVEY: survey '' @ ToString (survey_id survey)
                           @ '' is excluded by sampling, and not quarantined (event sampling)'')
                    (emit c (survey_excluded_not_quarantined_event_sampling (survey_id survey) (Num pct)) s2)))"

subsection \<open>Public operations\<close>

definition normalizeSurveyIdToArray :: "candidates \<Rightarrow> string list" where
  "normalizeSurveyIdToArray candidateSurveyIds =
     (case candidateSurveyIds of
        Array xs \<Rightarrow> filter (\<lambda>x. x \<noteq> []) (map (\<lambda>x. trim (ToString x)) xs)
      | Scalar v \<Rightarrow>
          if \<not> truthy v then []
          else (case v of
                  Str str \<Rightarrow> filter (\<lambda>x. x \<noteq> []) (map trim (split_comma [] str))
                | _ \<Rightarrow> filter (\<lambda>x. x \<noteq> []) [trim (ToString v)]))"

text \<open>
  \<^verbatim>\<open>if (typeof cfg.priority !== "number") cfg.priority = parseInt(cfg.priority, 10)\<close>:
  the number that \<^verbatim>\<open>cfg.priority\<close> holds after this statement.
\<close>

definition priority_number :: "survey \<Rightarrow> number" where
  "priority_number cfg = (case priority cfg of Number n \<Rightarrow> n | v \<Rightarrow> parseInt v)"

definition normalizePriority :: "survey \<Rightarrow> survey" where
  "normalizePriority cfg = cfg\<lparr>priority := Number (priority_number cfg)\<rparr>"

text \<open>
  The same statement raises when it has to assign (the priority is not a number yet) and
  the entry refuses the assignment.
\<close>

definition refuses_write :: "state \<Rightarrow> string \<Rightarrow> survey \<Rightarrow> bool" where
  "refuses_write s surveyId cfg = (\<not> is_number (priority cfg) \<and> surveyId \<in> frozen s)"

text \<open>
  The \<^verbatim>\<open>for\<close> loop of \<^verbatim>\<open>chooseSurvey\<close> over the identifiers still to visit, with the
  loop variables \<^verbatim>\<open>maxPriority\<close> and \<^verbatim>\<open>chosen\<close>. The operator \<^verbatim>\<open>&&\<close> calls
  \<^verbatim>\<open>passesStorageRules\<close> only when its left operand is true. An exception of the
  priority assignment or of the quarantine read leaves the loop and the function.
\<close>

fun choose_loop ::
  "config \<Rightarrow> string list \<Rightarrow> number \<times> survey option \<Rightarrow> state
     \<Rightarrow> (js_error + number \<times> survey option) \<times> state" where
  "choose_loop c [] acc s = (Inr acc, s)"
| "choose_loop c (surveyId # ids) (maxPriority, chosen) s =
     (case surveyConfigurations s surveyId of
        None \<Rightarrow> choose_loop c ids (maxPriority, chosen) (emit c (survey_missing_config surveyId) s)
      | Some cfg0 \<Rightarrow>
          if refuses_write s surveyId cfg0 then (Inl TypeError, s)
          else
            (let cfg = normalizePriority cfg0;
                 s1 = s\<lparr>surveyConfigurations := (surveyConfigurations s)(surveyId \<mapsto> cfg)\<rparr>
             in if num_gt (priority_number cfg0) maxPriority then
                  (case passesStorageRules c cfg s1 of
                     (Inl e, s2) \<Rightarrow> (Inl e, s2)
                   | (Inr True, s2) \<Rightarrow> choose_loop c ids (priority_number cfg0, Some cfg) s2
                   | (Inr False, s2) \<Rightarrow> choose_loop c ids (maxPriority, chosen) s2)
                else choose_loop c ids (maxPriority, chosen) s1))"

definition chooseSurvey :: "config \<Rightarrow> candidates \<Rightarrow> state \<Rightarrow> (js_error + survey option) \<times> state" where
  "chooseSurvey c candidateSurveyIds s =
     (let ids = normalizeSurveyIdToArray candidateSurveyIds in
      if ids = [] then (Inr None, s)
      else
        (case choose_loop c ids (Num (- 1), None) s of
           (Inl e, s') \<Rightarrow> (Inl e, s')
         | (Inr (maxPriority, Some chosen), s') \<Rightarrow>
             (Inr (Some chosen), emit c (survey_chosen (survey_id chosen) (priority chosen)) s')
         | (Inr (maxPriority, None), s') \<Rightarrow>
             (Inr None, emit c (survey_none_chosen ids) s')))"

text \<open>
  \<^verbatim>\<open>quarantineSurvey(surveyId, days)\<close>, for any value of \<^verbatim>\<open>days\<close>: the test is
  \<^verbatim>\<open>days && days > 0\<close>, the record is written with \<^verbatim>\<open>parseInt(days, 10)\<close>, and the
  event carries \<^verbatim>\<open>days\<close> as it came. UsageExample.js passes the \<^verbatim>\<open>quarantine\<close> field
  of the chosen survey, a string. Half a day is \<open>Str ''0.5''\<close> here: the test and
  \<^verbatim>\<open>parseInt\<close> treat the number 0.5 and the string alike.
\<close>

definition quarantineSurvey :: "config \<Rightarrow> jsval \<Rightarrow> jsval \<Rightarrow> state \<Rightarrow> state" where
  "quarantineSurvey c surveyId days s =
     (let sid = ToString surveyId;
          key = quarantineKeyPrefix c @ sid
      in if truthy days \<and> gt_zero days then
           emit c (survey_quarantined sid days ''local'')
             (setWithExpiry key (Str ''true'') (parseInt days) s)
         else
           emit c (survey_quarantined sid (Number (Num 0)) ''session'')
             (setWithExpiry key (Str ''true'') (Num 0) s))"

section \<open>Notions the properties are stated with\<close>

text \<open>
  A stored text that is a quarantine record, unexpired at time \<open>now\<close>: a record whose
  marker is truthy and whose expiry, if it has one, is not in the past.
\<close>

definition live_record :: "int \<Rightarrow> stored option \<Rightarrow> bool" where
  "live_record now t =
     (case t of
        Some (JsonRecord it) \<Rightarrow>
          truthy (item_value it) \<and> (case item_expiry it of None \<Rightarrow> True | Some e \<Rightarrow> now \<le> e)
      | _ \<Rightarrow> False)"

text \<open>
  A quarantine entry is present and unexpired at time \<open>now\<close>: one of the two stores holds
  an unexpired quarantine record under the key.
\<close>

definition unexpired_entry :: "int \<Rightarrow> string \<Rightarrow> state \<Rightarrow> bool" where
  "unexpired_entry now key s =
     (live_record now (localStorage s key) \<or> live_record now (sessionStorage s key))"

text \<open>The durable store holds nothing under the key: no text, or the empty text.\<close>

definition no_durable_text :: "string \<Rightarrow> state \<Rightarrow> bool" where
  "no_durable_text key s = (localStorage s key = None \<or> localStorage s key = Some Blank)"

text \<open>
  The narrower notion, with the order of the two stores: the durable store holds an
  unexpired quarantine record under the key, or it holds nothing under the key and the
  session store holds an unexpired quarantine record.
\<close>

definition live_entry :: "int \<Rightarrow> string \<Rightarrow> state \<Rightarrow> bool" where
  "live_entry now key s =
     (live_record now (localStorage s key)
      \<or> no_durable_text key s \<and> live_record now (sessionStorage s key))"

text \<open>
  A stored text that does not stand in the way of sampling at time \<open>now\<close>: there is none,
  or it is empty, or it is a record whose marker is falsy or whose expiry, not 0, is in
  the past.
\<close>

definition lapsed_record :: "int \<Rightarrow> stored option \<Rightarrow> bool" where
  "lapsed_record now t =
     (case t of
        None \<Rightarrow> True
      | Some Blank \<Rightarrow> True
      | Some (JsonRecord it) \<Rightarrow>
          \<not> truthy (item_value it) \<or> (case item_expiry it of None \<Rightarrow> False | Some e \<Rightarrow> e \<noteq> 0 \<and> e < now)
      | _ \<Rightarrow> False)"

text \<open>
  No quarantine stands at time \<open>now\<close>, with the order of the two stores: the durable text
  under the key does not stand in the way, nor does the session text when the durable
  store holds nothing under the key.
\<close>

definition not_quarantined :: "int \<Rightarrow> string \<Rightarrow> state \<Rightarrow> bool" where
  "not_quarantined now key s =
     (if no_durable_text key s then lapsed_record now (sessionStorage s key)
      else lapsed_record now (localStorage s key))"

text \<open>
  The sampling threshold: \<^verbatim>\<open>percentage\<close> coerced to an integer, 0 when it does not parse.
\<close>

definition threshold :: "survey \<Rightarrow> int" where
  "threshold sv = (case parseInt (percentage sv) of NaN \<Rightarrow> 0 | Num p \<Rightarrow> p)"

text \<open>What \<^verbatim>\<open>onEvent\<close> receives when the engine emits \<open>ev\<close>: nothing when no callback is set.\<close>

definition received :: "config \<Rightarrow> event \<Rightarrow> event list" where
  "received c ev = (case onEvent c of None \<Rightarrow> [] | Some f \<Rightarrow> [ev])"

text \<open>
  The state in which the loop calls the check for a resolved candidate: the registry entry
  holds the normalised priority.
\<close>

definition normalised_in :: "state \<Rightarrow> string \<Rightarrow> survey \<Rightarrow> state" where
  "normalised_in s surveyId cfg0 =
     s\<lparr>surveyConfigurations := (surveyConfigurations s)(surveyId \<mapsto> normalizePriority cfg0)\<rparr>"

text \<open>The registry entry of an identifier as the loop sees it, priority normalised.\<close>

definition candidate :: "state \<Rightarrow> string \<Rightarrow> survey option" where
  "candidate s surveyId = map_option normalizePriority (surveyConfigurations s surveyId)"

text \<open>
  Candidate \<open>j\<close> of the list is eligible at its turn: the loop reaches it without an
  exception, it resolves in the registry, its priority is normalised without an
  exception, and the check, called in the state the loop has reached, returns true.
\<close>

definition eligible_at :: "config \<Rightarrow> string list \<Rightarrow> state \<Rightarrow> nat \<Rightarrow> bool" where
  "eligible_at c ids s j =
     (case choose_loop c (take j ids) (Num (- 1), None) s of
        (Inl e, sj) \<Rightarrow> False
      | (Inr acc, sj) \<Rightarrow>
          (case surveyConfigurations sj (ids ! j) of
             None \<Rightarrow> False
           | Some cfg0 \<Rightarrow>
               \<not> refuses_write sj (ids ! j) cfg0
               \<and> fst (passesStorageRules c (normalizePriority cfg0) (normalised_in sj (ids ! j) cfg0)) = Inr True))"

text \<open>The state in which the loop arrives at candidate \<open>j\<close> of the list.\<close>

definition reached :: "config \<Rightarrow> string list \<Rightarrow> state \<Rightarrow> nat \<Rightarrow> state" where
  "reached c ids s j = snd (choose_loop c (take j ids) (Num (- 1), None) s)"

text \<open>The integer-coerced priority of candidate \<open>j\<close>, if it resolves and its priority is not NaN.\<close>

definition priority_at :: "state \<Rightarrow> string list \<Rightarrow> nat \<Rightarrow> int option" where
  "priority_at s ids j =
     (case surveyConfigurations s (ids ! j) of
        None \<Rightarrow> None
      | Some cfg0 \<Rightarrow> (case priority_number cfg0 of NaN \<Rightarrow> None | Num q \<Rightarrow> Some q))"

text \<open>No stored text is one that the quarantine read rejects.\<close>

definition readable :: "state \<Rightarrow> bool" where
  "readable s =
     (\<forall>k. localStorage s k \<noteq> Some NotJson \<and> localStorage s k \<noteq> Some JsonNull
        \<and> sessionStorage s k \<noteq> Some NotJson \<and> sessionStorage s k \<noteq> Some JsonNull)"


subsection \<open>The set-up of UsageExample.js\<close>

definition demo_config :: config where
  "demo_config =
     \<lparr>userSampling = False, quarantineKeyPrefix = ''neb_'',
      onEvent = Some (\<lambda>_. Returned), logger = Some (\<lambda>_. Returned)\<rparr>"

text \<open>
  The registry of the example with its two own entries; the names it inherits from
  \<^verbatim>\<open>Object.prototype\<close>, which no call below looks up, are left out.
\<close>

definition demo_registry :: "string \<rightharpoonup> survey" where
  "demo_registry =
     [''2467'' \<mapsto> \<lparr>survey_id = Str ''2467'', priority = Number (Num 10),
                      percentage = Str ''100'', quarantine = Str ''21''\<rparr>,
      ''27152'' \<mapsto> \<lparr>survey_id = Str ''27152'', priority = Number (Num 10),
                       percentage = Str ''100'', quarantine = Str ''21''\<rparr>]"

text \<open>
  A fresh browser: both stores empty, the clock at 1000 ms and advancing, every draw 50.
  The two definitions are plain objects.
\<close>

definition demo_state :: state where
  "demo_state =
     \<lparr>surveyConfigurations = demo_registry, frozen = {},
      localStorage = Map.empty, sessionStorage = Map.empty,
      clock = (\<lambda>n. 1000 + int n), ticks = 0, random = (\<lambda>_. 50), draws = 0,
      events = [], messages = []\<rparr>"

text \<open>The first survey of the example, and the same survey with percentage "0".\<close>

definition demo_survey :: survey where
  "demo_survey =
     \<lparr>survey_id = Str ''2467'', priority = Number (Num 10),
      percentage = Str ''100'', quarantine = Str ''21''\<rparr>"

definition zero_percent_survey :: survey where
  "zero_percent_survey = demo_survey\<lparr>percentage := Str ''0''\<rparr>"

text \<open>A survey offered to one visitor in ten, and the engine in user sampling mode.\<close>

definition rare_survey :: survey where
  "rare_survey =
     \<lparr>survey_id = Str ''2467'', priority = Number (Num 10),
      percentage = Str ''10'', quarantine = Str ''21''\<rparr>"

definition user_sampling_config :: config where
  "user_sampling_config = demo_config\<lparr>userSampling := True\<rparr>"

text \<open>
  A visitor quarantined for one day at time 1000 and then for the session; every later
  reading of the clock is past the day.
\<close>

definition returning_visitor :: state where
  "returning_visitor =
     quarantineSurvey demo_config (Str ''2467'') (Number (Num 0))
       (quarantineSurvey demo_config (Str ''2467'') (Number (Num 1))
          (demo_state\<lparr>clock := (\<lambda>n. if n = 0 then 1000 else 100000000)\<rparr>))"

text \<open>A durable record whose expiry member is 0, read at time 1000.\<close>

definition epoch_record_state :: state where
  "epoch_record_state =
     demo_state\<lparr>localStorage := [''neb_2467'' \<mapsto> JsonRecord \<lparr>item_value = Str ''true'', item_expiry = Some 0\<rparr>]\<rparr>"

text \<open>A browser whose durable store holds, under the key of survey 2467, a text that is not JSON.\<close>

definition corrupted_state :: state where
  "corrupted_state = demo_state\<lparr>localStorage := [''neb_2467'' \<mapsto> NotJson]\<rparr>"

text \<open>
  The registry of the example, frozen with \<^verbatim>\<open>Object.freeze\<close> after the priority of
  survey 2467 was written as the string "10".
\<close>

definition frozen_state :: state where
  "frozen_state =
     demo_state\<lparr>surveyConfigurations :=
                   [''2467'' \<mapsto> \<lparr>survey_id = Str ''2467'', priority = Str ''10'',
                                    percentage = Str ''100'', quarantine = Str ''21''\<rparr>],
                 frozen := {''2467''}\<rparr>"

text \<open>A visitor under a session quarantine for survey 2467.\<close>

definition quarantined_visitor :: state where
  "quarantined_visitor = quarantineSurvey demo_config (Str ''2467'') (Number (Num 0)) demo_state"



text \<open>A registry whose only survey has the priority -1.\<close>

definition low_priority_state :: state where
  "low_priority_state =
     demo_state\<lparr>surveyConfigurations :=
       [''2467'' \<mapsto> \<lparr>survey_id = Str ''2467'', priority = Number (Num (- 1)),
                        percentage = Str ''100'', quarantine = Str ''21''\<rparr>]\<rparr>"

text \<open>Three surveys shown to everyone: A with priority 5, B with priority "10", C with priority 10.\<close>

definition tie_state :: state where
  "tie_state =
     demo_state\<lparr>surveyConfigurations :=
       [''A'' \<mapsto> \<lparr>survey_id = Str ''A'', priority = Number (Num 5), percentage = Str ''100'', quarantine = Str ''0''\<rparr>,
        ''B'' \<mapsto> \<lparr>survey_id = Str ''B'', priority = Str ''10'', percentage = Str ''100'', quarantine = Str ''0''\<rparr>,
        ''C'' \<mapsto> \<lparr>survey_id = Str ''C'', priority = Number (Num 10), percentage = Str ''100'', quarantine = Str ''0''\<rparr>]\<rparr>"

text \<open>A visitor quarantined for one day at time 1000, seen again later in a new session.\<close>

definition lapsed_visitor :: state where
  "lapsed_visitor =
     quarantineSurvey demo_config (Str ''2467'') (Number (Num 1))
       (demo_state\<lparr>clock := (\<lambda>n. if n = 0 then 1000 else 100000000)\<rparr>)"

text \<open>
  A durable record that is still good at time 1000 in front of a session record whose
  expiry has passed.
\<close>

definition shadowed_state :: state where
  "shadowed_state =
     demo_state\<lparr>localStorage := [''neb_2467'' \<mapsto> JsonRecord \<lparr>item_value = Str ''true'', item_expiry = Some 5000\<rparr>],
                sessionStorage := [''neb_2467'' \<mapsto> JsonRecord \<lparr>item_value = Str ''true'', item_expiry = Some 500\<rparr>]\<rparr>"

text \<open>No durable record, and a session record whose expiry has passed at time 1000.\<close>

definition stale_session_state :: state where
  "stale_session_state =
     demo_state\<lparr>sessionStorage := [''neb_2467'' \<mapsto> JsonRecord \<lparr>item_value = Str ''true'', item_expiry = Some 500\<rparr>]\<rparr>"

section \<open>Basic facts\<close>

subsection \<open>Callbacks leave the engine state alone\<close>

lemma emit_eq: "emit c ev s = (if onEvent c = None then s else s\<lparr>events := events s @ [ev]\<rparr>)"
  by (simp add: emit_def split: option.split outcome.split)

lemma log_eq: "log c msg s = (if logger c = None then s else s\<lparr>messages := messages s @ [msg]\<rparr>)"
  by (simp add: log_def split: option.split outcome.split)

lemma emit_fields [simp]:
  "surveyConfigurations (emit c ev s) = surveyConfigurations s"
  "frozen (emit c ev s) = frozen s"
  "localStorage (emit c ev s) = localStorage s"
  "sessionStorage (emit c ev s) = sessionStorage s"
  "clock (emit c ev s) = clock s"
  "ticks (emit c ev s) = ticks s"
  "random (emit c ev s) = random s"
  "draws (emit c ev s) = draws s"
  "messages (emit c ev s) = messages s"
  by (simp_all add: emit_eq)

lemma log_fields [simp]:
  "surveyConfigurations (log c m s) = surveyConfigurations s"
  "frozen (log c m s) = frozen s"
  "localStorage (log c m s) = localStorage s"
  "sessionStorage (log c m s) = sessionStorage s"
  "clock (log c m s) = clock s"
  "ticks (log c m s) = ticks s"
  "random (log c m s) = random s"
  "draws (log c m s) = draws s"
  "events (log c m s) = events s"
  by (simp_all add: log_eq)

lemma events_emit [simp]: "events (emit c ev s) = events s @ received c ev"
  by (simp add: emit_eq received_def split: option.split)

lemma digit_cases: "d < 10 \<Longrightarrow> d = 0 \<or> d = 1 \<or> d = 2 \<or> d = 3 \<or> d = 4 \<or> d = 5 \<or> d = 6 \<or> d = 7 \<or> d = 8 \<or> d = (9::nat)"
  by arith

lemma digit_char_props:
  assumes "d < 10"
  shows "is_digit (digit_char d)" "digit_val (digit_char d) = d" "\<not> is_space (digit_char d)"
    "digit_char d \<noteq> CHR ''-''" "digit_char d \<noteq> CHR ''+''"
  using digit_cases [OF assms]
  by (auto simp: digit_char_def is_digit_def digit_val_def is_space_def)

lemma digits_of_ne: "digits_of n \<noteq> []"
  by (induction n rule: digits_of.induct) (subst digits_of.simps, simp)

lemma digits_of_all: "\<forall>ch \<in> set (digits_of n). is_digit ch"
proof (induction n rule: digits_of.induct)
  case (1 n)
  show ?case
  proof (cases "n < 10")
    case True
    then show ?thesis by (subst digits_of.simps) (simp add: digit_char_props)
  next
    case False
    then have "n mod 10 < 10" by simp
    with False 1 show ?thesis by (subst digits_of.simps) (simp add: digit_char_props)
  qed
qed

lemma digits_value_snoc: "digits_value (cs @ [ch]) = 10 * digits_value cs + digit_val ch"
  by (simp add: digits_value_def)

lemma digits_value_digits_of: "digits_value (digits_of n) = n"
proof (induction n rule: digits_of.induct)
  case (1 n)
  show ?case
  proof (cases "n < 10")
    case True
    then show ?thesis by (subst digits_of.simps) (simp add: digits_value_def digit_char_props)
  next
    case False
    then have "n mod 10 < 10" by simp
    with False 1 show ?thesis
      by (subst digits_of.simps) (simp add: digits_value_snoc digit_char_props)
  qed
qed

lemma hd_digits_of: "\<exists>d rest. d < 10 \<and> digits_of n = digit_char d # rest"
proof (induction n rule: digits_of.induct)
  case (1 n)
  show ?case
  proof (cases "n < 10")
    case True
    then show ?thesis by (subst digits_of.simps) auto
  next
    case False
    with 1 obtain d rest where "d < 10" "digits_of (n div 10) = digit_char d # rest" by auto
    with False show ?thesis by (subst digits_of.simps) auto
  qed
qed

lemma parseInt_digits: "parseInt (Str (digits_of n)) = Num (int n)"
proof -
  obtain d rest where d: "d < 10" and eq: "digits_of n = digit_char d # rest"
    using hd_digits_of by blast
  have tw: "takeWhile is_digit (digits_of n) = digits_of n"
    using digits_of_all by (simp add: takeWhile_eq_all_conv)
  have dw: "dropWhile is_space (digits_of n) = digits_of n"
    using d eq by (simp add: digit_char_props)
  have sg: "(case digits_of n of c # _ \<Rightarrow> if c = CHR ''-'' then - 1 else 1 | [] \<Rightarrow> (1::int)) = 1"
    using d eq by (simp add: digit_char_props)
  have rs: "(case digits_of n of c # rest \<Rightarrow> if c = CHR ''-'' \<or> c = CHR ''+'' then rest else digits_of n
               | [] \<Rightarrow> digits_of n) = digits_of n"
    using d eq by (simp add: digit_char_props)
  show ?thesis
    by (simp add: parseInt_def Let_def dw sg rs tw digits_of_ne digits_value_digits_of)
qed

text \<open>Below \<open>10 ^ 21\<close> an integer is printed in plain digits, and \<^verbatim>\<open>parseInt\<close> reads it back.\<close>

lemma parseInt_Num:
  assumes "- (10 ^ 21) < n" and "n < 10 ^ 21"
  shows "parseInt (Number (Num n)) = Num n"
proof (cases "n < 0")
  case False
  with assms(2) have "nat n < 10 ^ 21" by (simp add: nat_less_iff)
  then have "numeral_of (nat n) = digits_of (nat n)" by (simp add: numeral_of_def)
  with False show ?thesis using parseInt_digits [of "nat n"] by (simp add: parseInt_def)
next
  case True
  with assms(1) have "nat (- n) < 10 ^ 21" by (simp add: nat_less_iff)
  then have nm: "numeral_of (nat (- n)) = digits_of (nat (- n))" by (simp add: numeral_of_def)
  have tw: "takeWhile is_digit (digits_of (nat (- n))) = digits_of (nat (- n))"
    using digits_of_all by (simp add: takeWhile_eq_all_conv)
  have sp: "\<not> is_space CHR ''-''" by (simp add: is_space_def)
  from True show ?thesis
    using digits_of_ne [of "nat (- n)"] digits_value_digits_of [of "nat (- n)"]
    by (simp add: parseInt_def Let_def sp tw nm)
qed

subsection \<open>Storage helpers and the branches of the eligibility check\<close>

lemma parseInt_Str:
  "parseInt (Str str) =
     (let S = dropWhile is_space str;
          sign = (case S of c # _ \<Rightarrow> if c = CHR ''-'' then - 1 else 1 | [] \<Rightarrow> (1::int));
          S' = (case S of c # rest \<Rightarrow> if c = CHR ''-'' \<or> c = CHR ''+'' then rest else S | [] \<Rightarrow> S);
          Z = takeWhile is_digit S'
      in if Z = [] then NaN else Num (sign * int (digits_value Z)))"
  by (simp add: parseInt_def)

lemmas evaluation =
  chooseSurvey_def normalizeSurveyIdToArray_def trim_def is_space_def
  normalizePriority_def priority_number_def parseInt_Str parseInt_Num is_digit_def digits_value_def
  digit_val_def passesStorageRules_def storage_key_def getWithExpiry_def getItems_def emit_def log_def
  setWithExpiry_def quarantineSurvey_def refuses_write_def Let_def
  demo_config_def demo_registry_def demo_state_def

lemma setWithExpiry_fields [simp]:
  "surveyConfigurations (setWithExpiry k v d s) = surveyConfigurations s"
  "frozen (setWithExpiry k v d s) = frozen s"
  "clock (setWithExpiry k v d s) = clock s"
  "random (setWithExpiry k v d s) = random s"
  "draws (setWithExpiry k v d s) = draws s"
  "events (setWithExpiry k v d s) = events s"
  "messages (setWithExpiry k v d s) = messages s"
  by (simp_all add: setWithExpiry_def Let_def split: number.split)

lemma setWithExpiry_durable:
  "d \<noteq> 0 \<Longrightarrow> setWithExpiry k v (Num d) s =
     s\<lparr>ticks := Suc (ticks s),
       localStorage := (localStorage s)(k \<mapsto> JsonRecord \<lparr>item_value = v, item_expiry = Some (clock s (ticks s) + d * 86400000)\<rparr>)\<rparr>"
  by (simp add: setWithExpiry_def Let_def mult.commute)

lemma setWithExpiry_session:
  "d = NaN \<or> d = Num 0 \<Longrightarrow> setWithExpiry k v d s =
     s\<lparr>sessionStorage := (sessionStorage s)(k \<mapsto> JsonRecord \<lparr>item_value = v, item_expiry = None\<rparr>)\<rparr>"
  by (auto simp: setWithExpiry_def)

lemma setWithExpiry_other:
  "k' \<noteq> k \<Longrightarrow> localStorage (setWithExpiry k v d s) k' = localStorage s k'"
  "k' \<noteq> k \<Longrightarrow> sessionStorage (setWithExpiry k v d s) k' = sessionStorage s k'"
  by (simp_all add: setWithExpiry_def Let_def split: number.split)

lemma getItems_cong:
  "localStorage s' k = localStorage s k \<Longrightarrow> sessionStorage s' k = sessionStorage s k
     \<Longrightarrow> getItems k s' = getItems k s"
  by (simp add: getItems_def split: option.split stored.split)

lemma getWithExpiry_fields:
  assumes "getWithExpiry k s = (r, s')"
  shows "surveyConfigurations s' = surveyConfigurations s" "sessionStorage s' = sessionStorage s"
    "clock s' = clock s" "random s' = random s" "draws s' = draws s"
    "events s' = events s" "messages s' = messages s"
    "\<And>k'. k' \<noteq> k \<Longrightarrow> localStorage s' k' = localStorage s k'"
    "localStorage s' = localStorage s \<or> localStorage s' = (localStorage s)(k := None)"
    "frozen s' = frozen s"
  using assms
  by (auto simp: getWithExpiry_def Let_def split: option.splits stored.splits if_splits)

text \<open>The notions of the stores, in terms of the text that the read looks at.\<close>

lemma live_entry_getItems: "live_entry now k s = live_record now (getItems k s)"
  by (auto simp: live_entry_def no_durable_text_def live_record_def getItems_def
      split: option.splits stored.splits)

lemma not_quarantined_getItems: "not_quarantined now k s = lapsed_record now (getItems k s)"
  by (auto simp: not_quarantined_def no_durable_text_def lapsed_record_def getItems_def
      split: option.splits stored.splits)

lemma getWithExpiry_live:
  assumes "live_entry (clock s (ticks s)) k s"
  shows "\<exists>v. getWithExpiry k s = (Inr v, s\<lparr>ticks := Suc (ticks s)\<rparr>) \<and> truthy v"
  using assms
  by (auto simp: live_entry_getItems live_record_def getWithExpiry_def Let_def split: option.splits stored.splits)

lemma getWithExpiry_lapsed:
  assumes "not_quarantined (clock s (ticks s)) k s"
  shows "\<exists>v s1. getWithExpiry k s = (Inr v, s1) \<and> \<not> truthy v"
  using assms
  by (auto simp: not_quarantined_getItems lapsed_record_def getWithExpiry_def Let_def
      split: option.splits stored.splits)


text \<open>The branches of the eligibility check, one lemma each.\<close>

lemma passes_error:
  "getWithExpiry (storage_key c (survey_id sv)) s = (Inl e, s1)
     \<Longrightarrow> passesStorageRules c sv s = (Inl e, s1)"
  by (simp add: passesStorageRules_def)

lemma passes_blocked:
  "getWithExpiry (storage_key c (survey_id sv)) s = (Inr v, s1) \<Longrightarrow> truthy v
     \<Longrightarrow> passesStorageRules c sv s =
          (Inr False,
           log c (''SURVEY: survey '' @ ToString (survey_id sv) @ '' is quarantined'')
             (emit c (survey_quarantined_block (survey_id sv)) s1))"
  by (simp add: passesStorageRules_def)

lemma passes_sampled:
  assumes "getWithExpiry (storage_key c (survey_id sv)) s = (Inr v, s1)" "\<not> truthy v"
    and "int (random s (draws s)) \<le> threshold sv"
  shows "passesStorageRules c sv s =
     (Inr True,
      emit c (survey_included_by_sampling (survey_id sv) (Num (threshold sv)))
        (if num_gt (parseInt (quarantine sv)) (Num 0)
         then emit c (survey_quarantine_set_on_sample (survey_id sv) (parseInt (quarantine sv)))
                (setWithExpiry (storage_key c (survey_id sv)) (Str ''true'') (parseInt (quarantine sv))
                   (s1\<lparr>draws := Suc (draws s)\<rparr>))
         else s1\<lparr>draws := Suc (draws s)\<rparr>))"
  using assms getWithExpiry_fields(4,5) [OF assms(1)]
  by (simp add: passesStorageRules_def Let_def threshold_def)

lemma passes_excluded_user:
  assumes "getWithExpiry (storage_key c (survey_id sv)) s = (Inr v, s1)" "\<not> truthy v"
    and "\<not> int (random s (draws s)) \<le> threshold sv" "userSampling c"
  shows "passesStorageRules c sv s =
     (Inr False,
      log c (''SURVEY: survey '' @ ToString (survey_id sv)
               @ '' is excluded by sampling, and quarantined (user sampling)'')
        (emit c (survey_excluded_quarantined_user_sampling (survey_id sv) (Num (threshold sv)))
          (if num_gt (parseInt (quarantine sv)) (Num 0)
           then setWithExpiry (storage_key c (survey_id sv)) (Str ''true'') (parseInt (quarantine sv))
                  (s1\<lparr>draws := Suc (draws s)\<rparr>)
           else s1\<lparr>draws := Suc (draws s)\<rparr>)))"
  using assms getWithExpiry_fields(4,5) [OF assms(1)]
  by (simp add: passesStorageRules_def Let_def threshold_def)

lemma passes_excluded_event:
  assumes "getWithExpiry (storage_key c (survey_id sv)) s = (Inr v, s1)" "\<not> truthy v"
    and "\<not> int (random s (draws s)) \<le> threshold sv" "\<not> userSampling c"
  shows "passesStorageRules c sv s =
     (Inr False,
      log c (''SURVEY: survey '' @ ToString (survey_id sv)
               @ '' is excluded by sampling, and not quarantined (event sampling)'')
        (emit c (survey_excluded_not_quarantined_event_sampling (survey_id sv) (Num (threshold sv)))
          (s1\<lparr>draws := Suc (draws s)\<rparr>)))"
  using assms getWithExpiry_fields(4,5) [OF assms(1)]
  by (simp add: passesStorageRules_def Let_def threshold_def)
section \<open>Manual quarantine\<close>

lemma quarantineSurvey_local:
  "truthy days \<Longrightarrow> gt_zero days \<Longrightarrow>
     quarantineSurvey c surveyId days s =
       emit c (survey_quarantined (ToString surveyId) days ''local'')
         (setWithExpiry (quarantineKeyPrefix c @ ToString surveyId) (Str ''true'') (parseInt days) s)"
  by (simp add: quarantineSurvey_def Let_def)

lemma quarantineSurvey_session:
  "\<not> truthy days \<or> \<not> gt_zero days \<Longrightarrow>
     quarantineSurvey c surveyId days s =
       emit c (survey_quarantined (ToString surveyId) (Number (Num 0)) ''session'')
         (setWithExpiry (quarantineKeyPrefix c @ ToString surveyId) (Str ''true'') (Num 0) s)"
  by (auto simp: quarantineSurvey_def Let_def)

text \<open>
  Claim C7, as the code has it. \<^verbatim>\<open>quarantineSurvey(surveyId, days)\<close> with \<open>days\<close> an
  integer number above 0 and below \<open>10 ^ 21\<close> stores, in the durable store under prefix +
  String(surveyId), the record with value \<^verbatim>\<open>"true"\<close> and expiry now + days * 86400 s (in
  milliseconds), leaves the session store alone and emits \<^verbatim>\<open>survey_quarantined\<close> with
  storage \<^verbatim>\<open>local\<close>. With \<open>days\<close> falsy or not above 0 it stores, in the session store,
  the record with no expiry member, leaves the durable store alone and emits
  \<^verbatim>\<open>survey_quarantined\<close> with days 0 and storage \<^verbatim>\<open>session\<close>. The days of the durable
  record are \<^verbatim>\<open>parseInt(days, 10)\<close>: for every value that is truthy and above 0 and of
  which \<^verbatim>\<open>parseInt\<close> reads an integer \<open>q\<close> other than 0, the durable record expires at
  now + q * 86400 s, and the event says \<^verbatim>\<open>local\<close> and carries the value as it came.
\<close>

theorem quarantineSurvey_writes:
  "(0 < d \<and> d < 10 ^ 21 \<longrightarrow>
      localStorage (quarantineSurvey c surveyId (Number (Num d)) s) (quarantineKeyPrefix c @ ToString surveyId)
        = Some (JsonRecord \<lparr>item_value = Str ''true'',
                            item_expiry = Some (clock s (ticks s) + d * 86400000)\<rparr>)
      \<and> sessionStorage (quarantineSurvey c surveyId (Number (Num d)) s) = sessionStorage s
      \<and> events (quarantineSurvey c surveyId (Number (Num d)) s)
          = events s @ received c (survey_quarantined (ToString surveyId) (Number (Num d)) ''local''))
   \<and> (\<not> truthy days \<or> \<not> gt_zero days \<longrightarrow>
      sessionStorage (quarantineSurvey c surveyId days s) (quarantineKeyPrefix c @ ToString surveyId)
        = Some (JsonRecord \<lparr>item_value = Str ''true'', item_expiry = None\<rparr>)
      \<and> localStorage (quarantineSurvey c surveyId days s) = localStorage s
      \<and> events (quarantineSurvey c surveyId days s)
          = events s @ received c (survey_quarantined (ToString surveyId) (Number (Num 0)) ''session''))
   \<and> (truthy days \<and> gt_zero days \<and> parseInt days = Num q \<and> q \<noteq> 0 \<longrightarrow>
      localStorage (quarantineSurvey c surveyId days s) (quarantineKeyPrefix c @ ToString surveyId)
        = Some (JsonRecord \<lparr>item_value = Str ''true'',
                            item_expiry = Some (clock s (ticks s) + q * 86400000)\<rparr>)
      \<and> sessionStorage (quarantineSurvey c surveyId days s) = sessionStorage s
      \<and> events (quarantineSurvey c surveyId days s)
          = events s @ received c (survey_quarantined (ToString surveyId) days ''local''))"
proof (intro conjI impI)
  assume d: "0 < d \<and> d < 10 ^ 21"
  then have p: "parseInt (Number (Num d)) = Num d" by (intro parseInt_Num) simp_all
  from d have q: "quarantineSurvey c surveyId (Number (Num d)) s =
      emit c (survey_quarantined (ToString surveyId) (Number (Num d)) ''local'')
        (setWithExpiry (quarantineKeyPrefix c @ ToString surveyId) (Str ''true'') (Num d) s)"
    using quarantineSurvey_local [of "Number (Num d)" c surveyId s] by (simp add: p)
  from d have nz: "d \<noteq> 0" by simp
  show "localStorage (quarantineSurvey c surveyId (Number (Num d)) s) (quarantineKeyPrefix c @ ToString surveyId)
        = Some (JsonRecord \<lparr>item_value = Str ''true'',
                            item_expiry = Some (clock s (ticks s) + d * 86400000)\<rparr>)"
    by (simp add: q setWithExpiry_durable [OF nz])
  show "sessionStorage (quarantineSurvey c surveyId (Number (Num d)) s) = sessionStorage s"
    by (simp add: q setWithExpiry_durable [OF nz])
  show "events (quarantineSurvey c surveyId (Number (Num d)) s)
          = events s @ received c (survey_quarantined (ToString surveyId) (Number (Num d)) ''local'')"
    by (simp add: q)
next
  assume f: "\<not> truthy days \<or> \<not> gt_zero days"
  note q = quarantineSurvey_session [OF f]
  show "sessionStorage (quarantineSurvey c surveyId days s) (quarantineKeyPrefix c @ ToString surveyId)
        = Some (JsonRecord \<lparr>item_value = Str ''true'', item_expiry = None\<rparr>)"
    by (simp add: q setWithExpiry_session)
  show "localStorage (quarantineSurvey c surveyId days s) = localStorage s"
    by (simp add: q setWithExpiry_session)
  show "events (quarantineSurvey c surveyId days s)
          = events s @ received c (survey_quarantined (ToString surveyId) (Number (Num 0)) ''session'')"
    by (simp add: q)
next
  assume a: "truthy days \<and> gt_zero days \<and> parseInt days = Num q \<and> q \<noteq> 0"
  then have q: "quarantineSurvey c surveyId days s =
       emit c (survey_quarantined (ToString surveyId) days ''local'')
         (setWithExpiry (quarantineKeyPrefix c @ ToString surveyId) (Str ''true'') (parseInt days) s)"
    by (simp add: quarantineSurvey_local)
  from a have p: "parseInt days = Num q" and nz: "q \<noteq> 0" by simp_all
  show "localStorage (quarantineSurvey c surveyId days s) (quarantineKeyPrefix c @ ToString surveyId)
          = Some (JsonRecord \<lparr>item_value = Str ''true'',
                              item_expiry = Some (clock s (ticks s) + q * 86400000)\<rparr>)"
    by (simp add: q p setWithExpiry_durable [OF nz])
  show "sessionStorage (quarantineSurvey c surveyId days s) = sessionStorage s"
    by (simp add: q p setWithExpiry_durable [OF nz])
  show "events (quarantineSurvey c surveyId days s)
          = events s @ received c (survey_quarantined (ToString surveyId) days ''local'')"
    by (simp add: q)
qed

text \<open>
  Ten days and no days, as numbers; and the call that UsageExample.js suggests,
  \<^verbatim>\<open>quarantineSurvey(chosenSurvey.survey_id, chosenSurvey.quarantine)\<close>, where the days
  are the string "21".
\<close>

theorem quarantineSurvey_writes_witness:
  "(0::int) < 10 \<and> (10::int) < 10 ^ 21
   \<and> localStorage (quarantineSurvey demo_config (Str ''2467'') (Number (Num 10)) demo_state) ''neb_2467''
       = Some (JsonRecord \<lparr>item_value = Str ''true'', item_expiry = Some 864001000\<rparr>)
   \<and> events (quarantineSurvey demo_config (Str ''2467'') (Number (Num 10)) demo_state)
       = [survey_quarantined ''2467'' (Number (Num 10)) ''local'']
   \<and> \<not> truthy (Number (Num 0))
   \<and> sessionStorage (quarantineSurvey demo_config (Str ''2467'') (Number (Num 0)) demo_state) ''neb_2467''
       = Some (JsonRecord \<lparr>item_value = Str ''true'', item_expiry = None\<rparr>)
   \<and> events (quarantineSurvey demo_config (Str ''2467'') (Number (Num 0)) demo_state)
       = [survey_quarantined ''2467'' (Number (Num 0)) ''session'']
   \<and> truthy (Str ''21'') \<and> gt_zero (Str ''21'') \<and> parseInt (Str ''21'') = Num 21 \<and> (21::int) \<noteq> 0
   \<and> localStorage (quarantineSurvey demo_config (Str ''2467'') (Str ''21'') demo_state) ''neb_2467''
       = Some (JsonRecord \<lparr>item_value = Str ''true'', item_expiry = Some 1814401000\<rparr>)
   \<and> events (quarantineSurvey demo_config (Str ''2467'') (Str ''21'') demo_state)
       = [survey_quarantined ''2467'' (Str ''21'') ''local'']"
proof -
  note t = quarantineSurvey_writes [of 10 demo_config "Str ''2467''" demo_state "Number (Num 0)"]
  note u = quarantineSurvey_writes [of _ demo_config "Str ''2467''" demo_state "Str ''21''" 21]
  have h1: "(0::int) < 10 \<and> (10::int) < 10 ^ 21" by simp
  have h2: "\<not> truthy (Number (Num 0))" by simp
  have h3: "truthy (Str ''21'') \<and> gt_zero (Str ''21'')"
    by (simp add: string_positive_def decimal_positive_def exponent_part_def trim_def is_space_def
        is_digit_def digits_value_def digit_val_def Let_def)
  have h4: "parseInt (Str ''21'') = Num 21 \<and> (21::int) \<noteq> 0"
    by (simp add: parseInt_Str is_space_def is_digit_def digits_value_def digit_val_def Let_def)
  have h34: "truthy (Str ''21'') \<and> gt_zero (Str ''21'') \<and> parseInt (Str ''21'') = Num 21 \<and> (21::int) \<noteq> 0"
    using h3 h4 by blast
  note a = t [THEN conjunct1, THEN mp, OF h1]
  note b = t [THEN conjunct2, THEN conjunct1, THEN mp, OF disjI1, OF h2]
  note c1 = u [THEN conjunct2, THEN conjunct2, THEN mp, OF h34]
  from a b c1 h1 h2 h3 h4 show ?thesis
    by (simp add: demo_config_def demo_state_def received_def)
qed

text \<open>
  Against claim C7 as stated. Every value below passes \<^verbatim>\<open>days > 0\<close>. The number
  \<open>10 ^ 21\<close> prints as \<^verbatim>\<open>1e+21\<close>, of which \<^verbatim>\<open>parseInt\<close> reads 1: the record expires
  after one day. Of \<^verbatim>\<open>"1.5"\<close> it reads 1 too. Of \<^verbatim>\<open>"0.5"\<close> it reads 0 and of \<^verbatim>\<open>true\<close>
  nothing: the durable store gets no record, the session store gets one with no expiry,
  and the event says \<^verbatim>\<open>local\<close>.
\<close>

theorem quarantineSurvey_days_counterexample:
  "gt_zero (Number (Num (10 ^ 21)))
   \<and> localStorage (quarantineSurvey demo_config (Str ''2467'') (Number (Num (10 ^ 21))) demo_state) ''neb_2467''
       = Some (JsonRecord \<lparr>item_value = Str ''true'', item_expiry = Some (1000 + 1 * 86400000)\<rparr>)
   \<and> gt_zero (Str ''1.5'')
   \<and> localStorage (quarantineSurvey demo_config (Str ''2467'') (Str ''1.5'') demo_state) ''neb_2467''
       = Some (JsonRecord \<lparr>item_value = Str ''true'', item_expiry = Some (1000 + 1 * 86400000)\<rparr>)
   \<and> gt_zero (Str ''0.5'')
   \<and> localStorage (quarantineSurvey demo_config (Str ''2467'') (Str ''0.5'') demo_state) ''neb_2467'' = None
   \<and> sessionStorage (quarantineSurvey demo_config (Str ''2467'') (Str ''0.5'') demo_state) ''neb_2467''
       = Some (JsonRecord \<lparr>item_value = Str ''true'', item_expiry = None\<rparr>)
   \<and> events (quarantineSurvey demo_config (Str ''2467'') (Str ''0.5'') demo_state)
       = [survey_quarantined ''2467'' (Str ''0.5'') ''local'']
   \<and> gt_zero (Bool True)
   \<and> localStorage (quarantineSurvey demo_config (Str ''2467'') (Bool True) demo_state) ''neb_2467'' = None
   \<and> sessionStorage (quarantineSurvey demo_config (Str ''2467'') (Bool True) demo_state) ''neb_2467''
       = Some (JsonRecord \<lparr>item_value = Str ''true'', item_expiry = None\<rparr>)
   \<and> events (quarantineSurvey demo_config (Str ''2467'') (Bool True) demo_state)
       = [survey_quarantined ''2467'' (Bool True) ''local'']"
  by (simp add: quarantineSurvey_def setWithExpiry_def emit_def demo_config_def demo_state_def
      parseInt_def numeral_of_def exponent_form_def strip_zeros_def digits_of.simps digit_char_def
      string_positive_def decimal_positive_def exponent_part_def trim_def is_space_def
      is_digit_def digits_value_def digit_val_def Let_def)

section \<open>Sampling\<close>

text \<open>
  Claim C4, as the code has it. When no quarantine stands for the survey (the durable
  text under its key, or the session text when the durable store holds nothing there, is
  absent, empty, or a record with a falsy marker or with an expiry other than 0 in the
  past), the check makes exactly one draw and the survey is sampled in exactly when the
  draw is at most the threshold, the percentage coerced to an integer and 0 when
  unparsable. So a threshold of 100 samples in on every draw from 0 to 99, and a
  threshold of 0 samples in exactly on the draw 0.
\<close>

theorem sampling_is_inclusive:
  assumes "not_quarantined (clock s (ticks s)) (storage_key c (survey_id sv)) s"
  shows "fst (passesStorageRules c sv s) = Inr (int (random s (draws s)) \<le> threshold sv)
       \<and> draws (snd (passesStorageRules c sv s)) = Suc (draws s)
       \<and> (threshold sv = 100 \<and> random s (draws s) \<le> 99 \<longrightarrow> fst (passesStorageRules c sv s) = Inr True)
       \<and> (threshold sv = 0 \<longrightarrow> fst (passesStorageRules c sv s) = Inr (random s (draws s) = 0))"
proof -
  obtain v s1 where g: "getWithExpiry (storage_key c (survey_id sv)) s = (Inr v, s1)" and nt: "\<not> truthy v"
    using getWithExpiry_lapsed [OF assms] by blast
  note fr = getWithExpiry_fields [OF g]
  have res: "fst (passesStorageRules c sv s) = Inr (int (random s (draws s)) \<le> threshold sv)"
  proof (cases "int (random s (draws s)) \<le> threshold sv")
    case True
    then show ?thesis by (simp add: passes_sampled [OF g nt])
  next
    case False
    then show ?thesis
      by (cases "userSampling c")
        (simp_all add: passes_excluded_user [OF g nt] passes_excluded_event [OF g nt])
  qed
  have dr: "draws (snd (passesStorageRules c sv s)) = Suc (draws s)"
  proof (cases "int (random s (draws s)) \<le> threshold sv")
    case True
    then show ?thesis by (simp add: passes_sampled [OF g nt])
  next
    case False
    then show ?thesis
      by (cases "userSampling c")
        (simp_all add: passes_excluded_user [OF g nt] passes_excluded_event [OF g nt])
  qed
  show ?thesis using res dr by auto
qed

text \<open>
  A fresh browser, for the survey with percentage "0" and the one with percentage "100";
  and the visitor whose one-day quarantine has passed.
\<close>

theorem sampling_is_inclusive_witness:
  "not_quarantined (clock demo_state (ticks demo_state))
      (storage_key demo_config (survey_id zero_percent_survey)) demo_state
   \<and> not_quarantined (clock demo_state (ticks demo_state))
      (storage_key demo_config (survey_id demo_survey)) demo_state
   \<and> not_quarantined (clock lapsed_visitor (ticks lapsed_visitor))
      (storage_key demo_config (survey_id demo_survey)) lapsed_visitor
   \<and> threshold zero_percent_survey = 0
   \<and> fst (passesStorageRules demo_config zero_percent_survey demo_state) = Inr False
   \<and> draws (snd (passesStorageRules demo_config zero_percent_survey demo_state)) = 1
   \<and> threshold demo_survey = 100 \<and> random demo_state (draws demo_state) \<le> 99
   \<and> fst (passesStorageRules demo_config demo_survey demo_state) = Inr True
   \<and> random lapsed_visitor (draws lapsed_visitor) \<le> 99
   \<and> fst (passesStorageRules demo_config demo_survey lapsed_visitor) = Inr True"
proof -
  have h1: "not_quarantined (clock demo_state (ticks demo_state))
      (storage_key demo_config (survey_id zero_percent_survey)) demo_state"
    by (simp add: not_quarantined_def no_durable_text_def lapsed_record_def storage_key_def
        demo_state_def demo_config_def zero_percent_survey_def demo_survey_def)
  have h1': "not_quarantined (clock demo_state (ticks demo_state))
      (storage_key demo_config (survey_id demo_survey)) demo_state"
    by (simp add: not_quarantined_def no_durable_text_def lapsed_record_def storage_key_def
        demo_state_def demo_config_def demo_survey_def)
  have h1'': "not_quarantined (clock lapsed_visitor (ticks lapsed_visitor))
      (storage_key demo_config (survey_id demo_survey)) lapsed_visitor"
    by (simp add: not_quarantined_def no_durable_text_def lapsed_record_def evaluation
        lapsed_visitor_def demo_survey_def)
  have th: "threshold zero_percent_survey = 0"
    by (simp add: evaluation zero_percent_survey_def demo_survey_def threshold_def)
  have th': "threshold demo_survey = 100 \<and> random demo_state (draws demo_state) \<le> 99"
    by (simp add: evaluation demo_survey_def threshold_def)
  have th'': "threshold demo_survey = 100 \<and> random lapsed_visitor (draws lapsed_visitor) \<le> 99"
    by (simp add: evaluation demo_survey_def threshold_def lapsed_visitor_def)
  note t = sampling_is_inclusive [OF h1]
  note t' = sampling_is_inclusive [OF h1']
  note t'' = sampling_is_inclusive [OF h1'']
  note r0 = t [THEN conjunct2, THEN conjunct2, THEN conjunct2, THEN mp, OF th]
  have r: "fst (passesStorageRules demo_config zero_percent_survey demo_state) = Inr False"
    using r0 by (simp add: demo_state_def)
  have d: "draws (snd (passesStorageRules demo_config zero_percent_survey demo_state)) = 1"
    using t [THEN conjunct2, THEN conjunct1] by (simp add: demo_state_def)
  note r' = t' [THEN conjunct2, THEN conjunct2, THEN conjunct1, THEN mp, OF th']
  note r'' = t'' [THEN conjunct2, THEN conjunct2, THEN conjunct1, THEN mp, OF th'']
  from h1 h1' h1'' th r d th' r' th'' r'' show ?thesis by (intro conjI) simp_all
qed

text \<open>
  Against claim C4 as stated. Neither browser below holds an unexpired quarantine entry
  for survey 2467, whose percentage is "100". In the first the durable text under its key
  is not JSON: the check makes no draw and ends with the SyntaxError of the read. In the
  second the durable record carries the expiry 0, long past at time 1000: the check takes
  it for a standing quarantine, makes no draw and returns false.
\<close>

theorem sampling_counterexample:
  "\<not> unexpired_entry (clock corrupted_state (ticks corrupted_state))
        (storage_key demo_config (survey_id demo_survey)) corrupted_state
   \<and> threshold demo_survey = 100
   \<and> fst (passesStorageRules demo_config demo_survey corrupted_state) = Inl SyntaxError
   \<and> draws (snd (passesStorageRules demo_config demo_survey corrupted_state)) = 0
   \<and> \<not> unexpired_entry (clock epoch_record_state (ticks epoch_record_state))
        (storage_key demo_config (survey_id demo_survey)) epoch_record_state
   \<and> fst (passesStorageRules demo_config demo_survey epoch_record_state) = Inr False
   \<and> draws (snd (passesStorageRules demo_config demo_survey epoch_record_state)) = 0"
  by (simp add: evaluation unexpired_entry_def live_record_def threshold_def demo_survey_def
      corrupted_state_def epoch_record_state_def)

text \<open>
  Claim C6. A survey that the draw excludes (no quarantine reported, draw above the
  threshold) is ineligible. In user sampling mode, when its quarantine days coerce to an
  integer above 0, the durable store receives a record for it and
  \<^verbatim>\<open>survey_excluded_quarantined_user_sampling\<close> is emitted. Without user sampling, no
  store gains or changes a record and \<^verbatim>\<open>survey_excluded_not_quarantined_event_sampling\<close>
  is emitted.
\<close>

theorem excluded_by_sampling:
  assumes "getWithExpiry (storage_key c (survey_id sv)) s = (Inr v, s1)" and "\<not> truthy v"
    and "threshold sv < int (random s (draws s))"
  shows "fst (passesStorageRules c sv s) = Inr False
     \<and> (userSampling c \<and> parseInt (quarantine sv) = Num q \<and> 0 < q \<longrightarrow>
          localStorage (snd (passesStorageRules c sv s)) (storage_key c (survey_id sv))
            = Some (JsonRecord \<lparr>item_value = Str ''true'',
                                item_expiry = Some (clock s (ticks s1) + q * 86400000)\<rparr>)
          \<and> events (snd (passesStorageRules c sv s))
              = events s @ received c (survey_excluded_quarantined_user_sampling (survey_id sv) (Num (threshold sv))))
     \<and> (\<not> userSampling c \<longrightarrow>
          (\<forall>k x. localStorage (snd (passesStorageRules c sv s)) k = Some x \<longrightarrow> localStorage s k = Some x)
          \<and> sessionStorage (snd (passesStorageRules c sv s)) = sessionStorage s
          \<and> events (snd (passesStorageRules c sv s))
              = events s @ received c (survey_excluded_not_quarantined_event_sampling (survey_id sv) (Num (threshold sv))))"
proof -
  note g = assms(1)
  note fr = getWithExpiry_fields [OF g]
  from assms(3) have ex: "\<not> int (random s (draws s)) \<le> threshold sv" by simp
  have r: "fst (passesStorageRules c sv s) = Inr False"
    by (cases "userSampling c")
      (simp_all add: passes_excluded_user [OF g assms(2) ex] passes_excluded_event [OF g assms(2) ex])
  have u: "localStorage (snd (passesStorageRules c sv s)) (storage_key c (survey_id sv))
            = Some (JsonRecord \<lparr>item_value = Str ''true'',
                                item_expiry = Some (clock s (ticks s1) + q * 86400000)\<rparr>)
          \<and> events (snd (passesStorageRules c sv s))
              = events s @ received c (survey_excluded_quarantined_user_sampling (survey_id sv) (Num (threshold sv)))"
    if "userSampling c" "parseInt (quarantine sv) = Num q" "0 < q"
  proof -
    from that have nz: "q \<noteq> 0" by simp
    show ?thesis
      using that fr(3,6)
      by (simp add: passes_excluded_user [OF g assms(2) ex] setWithExpiry_durable [OF nz])
  qed
  have e: "(\<forall>k x. localStorage (snd (passesStorageRules c sv s)) k = Some x \<longrightarrow> localStorage s k = Some x)
          \<and> sessionStorage (snd (passesStorageRules c sv s)) = sessionStorage s
          \<and> events (snd (passesStorageRules c sv s))
              = events s @ received c (survey_excluded_not_quarantined_event_sampling (survey_id sv) (Num (threshold sv)))"
    if "\<not> userSampling c"
  proof -
    have st: "snd (passesStorageRules c sv s) =
        log c (''SURVEY: survey '' @ ToString (survey_id sv)
                 @ '' is excluded by sampling, and not quarantined (event sampling)'')
          (emit c (survey_excluded_not_quarantined_event_sampling (survey_id sv) (Num (threshold sv)))
            (s1\<lparr>draws := Suc (draws s)\<rparr>))"
      by (simp add: passes_excluded_event [OF g assms(2) ex that])
    have l: "localStorage (snd (passesStorageRules c sv s)) = localStorage s1" by (simp add: st)
    have "\<forall>k x. localStorage s1 k = Some x \<longrightarrow> localStorage s k = Some x"
      using fr(9) by (auto split: if_splits)
    then show ?thesis using fr(2,6) by (simp add: l) (simp add: st)
  qed
  from r u e show ?thesis by blast
qed

theorem excluded_by_sampling_witness:
  "getWithExpiry (storage_key user_sampling_config (survey_id rare_survey)) demo_state = (Inr Null, demo_state)
   \<and> getWithExpiry (storage_key demo_config (survey_id rare_survey)) demo_state = (Inr Null, demo_state)
   \<and> \<not> truthy Null
   \<and> threshold rare_survey < int (random demo_state (draws demo_state))
   \<and> userSampling user_sampling_config \<and> parseInt (quarantine rare_survey) = Num 21 \<and> (0::int) < 21
   \<and> fst (passesStorageRules user_sampling_config rare_survey demo_state) = Inr False
   \<and> localStorage (snd (passesStorageRules user_sampling_config rare_survey demo_state)) ''neb_2467''
       = Some (JsonRecord \<lparr>item_value = Str ''true'', item_expiry = Some 1814401000\<rparr>)
   \<and> \<not> userSampling demo_config
   \<and> fst (passesStorageRules demo_config rare_survey demo_state) = Inr False
   \<and> localStorage (snd (passesStorageRules demo_config rare_survey demo_state)) ''neb_2467'' = None
   \<and> sessionStorage (snd (passesStorageRules demo_config rare_survey demo_state)) = sessionStorage demo_state
   \<and> events (snd (passesStorageRules demo_config rare_survey demo_state))
       = [survey_excluded_not_quarantined_event_sampling (Str ''2467'') (Num 10)]"
proof -
  have g1: "getWithExpiry (storage_key user_sampling_config (survey_id rare_survey)) demo_state = (Inr Null, demo_state)"
    by (simp add: evaluation rare_survey_def user_sampling_config_def threshold_def received_def)
  have g2: "getWithExpiry (storage_key demo_config (survey_id rare_survey)) demo_state = (Inr Null, demo_state)"
    by (simp add: evaluation rare_survey_def user_sampling_config_def threshold_def received_def)
  have f: "\<not> truthy Null" by simp
  have th: "threshold rare_survey = 10" by (simp add: evaluation rare_survey_def threshold_def)
  have x: "threshold rare_survey < int (random demo_state (draws demo_state))"
    by (simp add: th) (simp add: demo_state_def)
  have u: "userSampling user_sampling_config \<and> parseInt (quarantine rare_survey) = Num 21 \<and> (0::int) < 21"
    by (simp add: evaluation rare_survey_def user_sampling_config_def threshold_def received_def)
  have k: "storage_key user_sampling_config (survey_id rare_survey) = ''neb_2467''"
    "storage_key demo_config (survey_id rare_survey) = ''neb_2467''"
    by (simp_all add: evaluation rare_survey_def user_sampling_config_def threshold_def received_def)
  have e: "\<not> userSampling demo_config" by (simp add: demo_config_def)
  note t1 = excluded_by_sampling [OF g1 f x, of 21]
  note t2 = excluded_by_sampling [OF g2 f x, of 0]
  from t1 u have a: "fst (passesStorageRules user_sampling_config rare_survey demo_state) = Inr False"
    "localStorage (snd (passesStorageRules user_sampling_config rare_survey demo_state)) ''neb_2467''
       = Some (JsonRecord \<lparr>item_value = Str ''true'', item_expiry = Some (clock demo_state (ticks demo_state) + 21 * 86400000)\<rparr>)"
    by (simp_all add: k)
  from t2 e have b: "fst (passesStorageRules demo_config rare_survey demo_state) = Inr False"
    "\<forall>k x. localStorage (snd (passesStorageRules demo_config rare_survey demo_state)) k = Some x \<longrightarrow> localStorage demo_state k = Some x"
    "sessionStorage (snd (passesStorageRules demo_config rare_survey demo_state)) = sessionStorage demo_state"
    "events (snd (passesStorageRules demo_config rare_survey demo_state))
       = events demo_state @ received demo_config (survey_excluded_not_quarantined_event_sampling (survey_id rare_survey) (Num (threshold rare_survey)))"
    by blast+
  have b2: "localStorage (snd (passesStorageRules demo_config rare_survey demo_state)) ''neb_2467'' = None"
  proof (cases "localStorage (snd (passesStorageRules demo_config rare_survey demo_state)) ''neb_2467''")
    case None then show ?thesis .
  next
    case (Some x)
    with b(2) have "localStorage demo_state ''neb_2467'' = Some x" by blast
    then show ?thesis by (simp add: demo_state_def)
  qed
  have a2: "clock demo_state (ticks demo_state) + 21 * 86400000 = 1814401000" by (simp add: demo_state_def)
  have b4: "events demo_state @ received demo_config (survey_excluded_not_quarantined_event_sampling (survey_id rare_survey) (Num (threshold rare_survey)))
      = [survey_excluded_not_quarantined_event_sampling (Str ''2467'') (Num 10)]"
    by (simp add: th) (simp add: demo_state_def demo_config_def received_def rare_survey_def)
  from g1 g2 f x u a b(1,3,4) b2 e show ?thesis unfolding a2 b4 by blast
qed
section \<open>Lazy expiry\<close>

text \<open>
  Claim C8, as the code has it. When the record that the read finds under the key (the
  durable record, or the session record when the durable store has none) carries a
  nonzero expiry earlier than the current time, the read returns null, the durable store
  holds no record for the key afterwards and the session store is untouched. The next
  read consults the session store alone. It returns null again when the session store has
  no record for the key, and when it has a record whose own expiry, not 0, has passed:
  that record stays where it is. It returns the marker of a session record that has no
  expiry.
\<close>

theorem lazy_expiry_on_read:
  assumes "getItems k s = Some (JsonRecord it)" and "item_expiry it = Some e"
    and "e \<noteq> 0" and "e < clock s (ticks s)"
  shows "fst (getWithExpiry k s) = Inr Null
       \<and> localStorage (snd (getWithExpiry k s)) k = None
       \<and> sessionStorage (snd (getWithExpiry k s)) = sessionStorage s
       \<and> getItems k (snd (getWithExpiry k s)) = sessionStorage s k
       \<and> (sessionStorage s k = None \<longrightarrow>
            getWithExpiry k (snd (getWithExpiry k s)) = (Inr Null, snd (getWithExpiry k s)))
       \<and> (sessionStorage s k = Some (JsonRecord it') \<and> item_expiry it' = Some e'
            \<and> e' \<noteq> 0 \<and> e' < clock s (Suc (ticks s)) \<longrightarrow>
            fst (getWithExpiry k (snd (getWithExpiry k s))) = Inr Null
            \<and> sessionStorage (snd (getWithExpiry k (snd (getWithExpiry k s)))) k = Some (JsonRecord it'))
       \<and> (sessionStorage s k = Some (JsonRecord it') \<and> item_expiry it' = None \<longrightarrow>
            fst (getWithExpiry k (snd (getWithExpiry k s))) = Inr (item_value it'))"
proof -
  let ?s' = "s\<lparr>ticks := Suc (ticks s), localStorage := (localStorage s)(k := None)\<rparr>"
  have g: "getWithExpiry k s = (Inr Null, ?s')"
    using assms by (simp add: getWithExpiry_def Let_def)
  have i: "getItems k ?s' = sessionStorage s k"
    by (simp add: getItems_def)
  have n: "getWithExpiry k ?s' = (Inr Null, ?s')" if "sessionStorage s k = None"
    using that by (simp add: getWithExpiry_def i)
  have x: "fst (getWithExpiry k ?s') = Inr Null
      \<and> sessionStorage (snd (getWithExpiry k ?s')) k = Some (JsonRecord it')"
    if "sessionStorage s k = Some (JsonRecord it') \<and> item_expiry it' = Some e'
            \<and> e' \<noteq> 0 \<and> e' < clock s (Suc (ticks s))"
    using that by (simp add: getWithExpiry_def i Let_def)
  have l: "fst (getWithExpiry k ?s') = Inr (item_value it')"
    if "sessionStorage s k = Some (JsonRecord it') \<and> item_expiry it' = None"
    using that by (simp add: getWithExpiry_def i Let_def)
  have a: "fst (getWithExpiry k s) = Inr Null" by (simp add: g)
  have b: "localStorage (snd (getWithExpiry k s)) k = None" by (simp add: g)
  have c: "sessionStorage (snd (getWithExpiry k s)) = sessionStorage s" by (simp add: g)
  have d: "getItems k (snd (getWithExpiry k s)) = sessionStorage s k" using i by (simp add: g)
  from a b c d n x l show ?thesis unfolding g snd_conv by blast
qed

text \<open>
  The visitor whose one-day quarantine has passed; the browser with a stale session record
  only; and the visitor with a session record behind the durable record that has passed.
\<close>

theorem lazy_expiry_on_read_witness:
  "getItems ''neb_2467'' lapsed_visitor
     = Some (JsonRecord \<lparr>item_value = Str ''true'', item_expiry = Some 86401000\<rparr>)
   \<and> item_expiry \<lparr>item_value = Str ''true'', item_expiry = Some 86401000\<rparr> = Some 86401000
   \<and> (86401000::int) \<noteq> 0
   \<and> 86401000 < clock lapsed_visitor (ticks lapsed_visitor)
   \<and> fst (getWithExpiry ''neb_2467'' lapsed_visitor) = Inr Null
   \<and> localStorage (snd (getWithExpiry ''neb_2467'' lapsed_visitor)) ''neb_2467'' = None
   \<and> sessionStorage lapsed_visitor ''neb_2467'' = None
   \<and> getWithExpiry ''neb_2467'' (snd (getWithExpiry ''neb_2467'' lapsed_visitor))
       = (Inr Null, snd (getWithExpiry ''neb_2467'' lapsed_visitor))
   \<and> getItems ''neb_2467'' stale_session_state
     = Some (JsonRecord \<lparr>item_value = Str ''true'', item_expiry = Some 500\<rparr>)
   \<and> (500::int) \<noteq> 0 \<and> 500 < clock stale_session_state (ticks stale_session_state)
   \<and> sessionStorage stale_session_state ''neb_2467''
     = Some (JsonRecord \<lparr>item_value = Str ''true'', item_expiry = Some 500\<rparr>)
   \<and> 500 < clock stale_session_state (Suc (ticks stale_session_state))
   \<and> fst (getWithExpiry ''neb_2467'' (snd (getWithExpiry ''neb_2467'' stale_session_state))) = Inr Null
   \<and> sessionStorage (snd (getWithExpiry ''neb_2467'' (snd (getWithExpiry ''neb_2467'' stale_session_state)))) ''neb_2467''
     = Some (JsonRecord \<lparr>item_value = Str ''true'', item_expiry = Some 500\<rparr>)
   \<and> getItems ''neb_2467'' returning_visitor
     = Some (JsonRecord \<lparr>item_value = Str ''true'', item_expiry = Some 86401000\<rparr>)
   \<and> 86401000 < clock returning_visitor (ticks returning_visitor)
   \<and> sessionStorage returning_visitor ''neb_2467''
     = Some (JsonRecord \<lparr>item_value = Str ''true'', item_expiry = None\<rparr>)
   \<and> fst (getWithExpiry ''neb_2467'' (snd (getWithExpiry ''neb_2467'' returning_visitor))) = Inr (Str ''true'')"
proof -
  let ?day = "\<lparr>item_value = Str ''true'', item_expiry = Some 86401000\<rparr>"
  let ?stale = "\<lparr>item_value = Str ''true'', item_expiry = Some 500\<rparr>"
  let ?session = "\<lparr>item_value = Str ''true'', item_expiry = None\<rparr>"
  have h1: "getItems ''neb_2467'' lapsed_visitor = Some (JsonRecord ?day)"
    by (simp add: evaluation lapsed_visitor_def)
  have h2: "item_expiry ?day = Some 86401000" by simp
  have h3: "(86401000::int) \<noteq> 0" by simp
  have h4: "86401000 < clock lapsed_visitor (ticks lapsed_visitor)"
    by (simp add: evaluation lapsed_visitor_def)
  have h5: "sessionStorage lapsed_visitor ''neb_2467'' = None"
    by (simp add: evaluation lapsed_visitor_def)
  note t = lazy_expiry_on_read [OF h1 h2 h3 h4]
  note t1 = t [THEN conjunct1]
  note t2 = t [THEN conjunct2, THEN conjunct1]
  note t5 = t [THEN conjunct2, THEN conjunct2, THEN conjunct2, THEN conjunct2, THEN conjunct1, THEN mp, OF h5]
  have i1: "getItems ''neb_2467'' stale_session_state = Some (JsonRecord ?stale)"
    by (simp add: evaluation stale_session_state_def)
  have i2: "item_expiry ?stale = Some 500" by simp
  have i3: "(500::int) \<noteq> 0" by simp
  have i4: "500 < clock stale_session_state (ticks stale_session_state)"
    by (simp add: evaluation stale_session_state_def)
  have i5: "sessionStorage stale_session_state ''neb_2467'' = Some (JsonRecord ?stale)"
    by (simp add: evaluation stale_session_state_def)
  have i6: "500 < clock stale_session_state (Suc (ticks stale_session_state))"
    by (simp add: evaluation stale_session_state_def)
  have i: "sessionStorage stale_session_state ''neb_2467'' = Some (JsonRecord ?stale) \<and> item_expiry ?stale = Some 500
            \<and> (500::int) \<noteq> 0 \<and> 500 < clock stale_session_state (Suc (ticks stale_session_state))"
    using i5 i2 i3 i6 by (intro conjI)
  note u = lazy_expiry_on_read [OF i1 i2 i3 i4, of ?stale 500]
  note u6 = u [THEN conjunct2, THEN conjunct2, THEN conjunct2, THEN conjunct2, THEN conjunct2, THEN conjunct1,
      THEN mp, OF i]
  have j1: "getItems ''neb_2467'' returning_visitor = Some (JsonRecord ?day)"
    by (simp add: evaluation returning_visitor_def)
  have j4: "86401000 < clock returning_visitor (ticks returning_visitor)"
    by (simp add: evaluation returning_visitor_def)
  have j5: "sessionStorage returning_visitor ''neb_2467'' = Some (JsonRecord ?session)"
    by (simp add: evaluation returning_visitor_def)
  have j: "sessionStorage returning_visitor ''neb_2467'' = Some (JsonRecord ?session) \<and> item_expiry ?session = None"
    using j5 by simp
  note v = lazy_expiry_on_read [OF j1 h2 h3 j4, of ?session]
  note v7 = v [THEN conjunct2, THEN conjunct2, THEN conjunct2, THEN conjunct2, THEN conjunct2, THEN conjunct2,
      THEN mp, OF j]
  have v7': "fst (getWithExpiry ''neb_2467'' (snd (getWithExpiry ''neb_2467'' returning_visitor))) = Inr (Str ''true'')"
    using v7 by simp
  from h1 h2 h3 h4 t1 t2 h5 t5 i1 i3 i4 i5 i6 u6 [THEN conjunct1] u6 [THEN conjunct2] j1 j4 j5 v7'
  show ?thesis by (intro conjI)
qed

text \<open>
  Against claim C8 as stated. For the returning visitor the durable record has expired:
  the read returns null and deletes it, and the very next read finds the session record
  and reports the survey quarantined. A record whose expiry member is 0, a timestamp
  earlier than the time 1000 of the read, is not expired by the read at all. And a session
  record whose expiry has passed is not even looked at while the durable store holds a
  record for the key.
\<close>

theorem lazy_expiry_counterexample:
  "localStorage returning_visitor ''neb_2467''
     = Some (JsonRecord \<lparr>item_value = Str ''true'', item_expiry = Some 86401000\<rparr>)
   \<and> clock returning_visitor (ticks returning_visitor) = 100000000
   \<and> fst (getWithExpiry ''neb_2467'' returning_visitor) = Inr Null
   \<and> fst (getWithExpiry ''neb_2467'' (snd (getWithExpiry ''neb_2467'' returning_visitor))) = Inr (Str ''true'')
   \<and> localStorage epoch_record_state ''neb_2467''
     = Some (JsonRecord \<lparr>item_value = Str ''true'', item_expiry = Some 0\<rparr>)
   \<and> clock epoch_record_state (ticks epoch_record_state) = 1000
   \<and> fst (getWithExpiry ''neb_2467'' epoch_record_state) = Inr (Str ''true'')
   \<and> localStorage (snd (getWithExpiry ''neb_2467'' epoch_record_state)) ''neb_2467''
     = Some (JsonRecord \<lparr>item_value = Str ''true'', item_expiry = Some 0\<rparr>)
   \<and> sessionStorage shadowed_state ''neb_2467''
     = Some (JsonRecord \<lparr>item_value = Str ''true'', item_expiry = Some 500\<rparr>)
   \<and> clock shadowed_state (ticks shadowed_state) = 1000
   \<and> fst (getWithExpiry ''neb_2467'' shadowed_state) = Inr (Str ''true'')"
  by (simp add: evaluation returning_visitor_def epoch_record_state_def shadowed_state_def)

section \<open>The selection loop\<close>

text \<open>The check touches the stores under the survey's own key only.\<close>

lemma passes_frame:
  assumes "passesStorageRules c sv s = (r, s')"
  shows "surveyConfigurations s' = surveyConfigurations s" "clock s' = clock s" "random s' = random s"
    "\<And>k. k \<noteq> storage_key c (survey_id sv) \<Longrightarrow> localStorage s' k = localStorage s k"
    "\<And>k. k \<noteq> storage_key c (survey_id sv) \<Longrightarrow> sessionStorage s' k = sessionStorage s k"
    "frozen s' = frozen s"
proof -
  obtain r0 s1 where g: "getWithExpiry (storage_key c (survey_id sv)) s = (r0, s1)"
    by (cases "getWithExpiry (storage_key c (survey_id sv)) s")
  note fr = getWithExpiry_fields [OF g]
  have fz: "frozen s' = frozen s"
  proof (cases r0)
    case (Inl e)
    with g assms fr(10) show ?thesis by (clarsimp simp: passes_error)
  next
    case (Inr v)
    note g' = g [unfolded Inr]
    show ?thesis
    proof (cases "truthy v")
      case True
      with assms fr(10) show ?thesis by (clarsimp simp: passes_blocked [OF g'])
    next
      case False
      note nt = this
      show ?thesis
      proof (cases "int (random s (draws s)) \<le> threshold sv")
        case True
        with assms fr(10) show ?thesis by (clarsimp simp: passes_sampled [OF g' nt])
      next
        case False
        with assms fr(10) show ?thesis
          by (cases "userSampling c")
            (clarsimp simp: passes_excluded_user [OF g' nt] passes_excluded_event [OF g' nt])+
      qed
    qed
  qed
  have "surveyConfigurations s' = surveyConfigurations s \<and> clock s' = clock s \<and> random s' = random s
      \<and> (\<forall>k. k \<noteq> storage_key c (survey_id sv) \<longrightarrow>
            localStorage s' k = localStorage s k \<and> sessionStorage s' k = sessionStorage s k)"
  proof (cases r0)
    case (Inl e)
    with g assms fr show ?thesis by (simp add: passes_error)
  next
    case (Inr v)
    note g' = g [unfolded Inr]
    show ?thesis
    proof (cases "truthy v")
      case True
      with assms fr show ?thesis by (auto simp: passes_blocked [OF g'])
    next
      case False
      note nt = this
      show ?thesis
      proof (cases "int (random s (draws s)) \<le> threshold sv")
        case True
        with assms fr show ?thesis
          by (auto simp: passes_sampled [OF g' nt] setWithExpiry_other)
      next
        case False
        with assms fr show ?thesis
          by (cases "userSampling c")
            (auto simp: passes_excluded_user [OF g' nt] passes_excluded_event [OF g' nt] setWithExpiry_other)
      qed
    qed
  qed
  then show "surveyConfigurations s' = surveyConfigurations s" "clock s' = clock s" "random s' = random s"
    "\<And>k. k \<noteq> storage_key c (survey_id sv) \<Longrightarrow> localStorage s' k = localStorage s k"
    "\<And>k. k \<noteq> storage_key c (survey_id sv) \<Longrightarrow> sessionStorage s' k = sessionStorage s k"
    "frozen s' = frozen s"
    using fz by blast+
qed

text \<open>One iteration, case by case.\<close>

lemma loop_missing:
  "surveyConfigurations s surveyId = None \<Longrightarrow>
     choose_loop c (surveyId # ids) (m, ch) s =
       choose_loop c ids (m, ch) (emit c (survey_missing_config surveyId) s)"
  by simp

lemma loop_refused:
  "surveyConfigurations s surveyId = Some cfg0 \<Longrightarrow> refuses_write s surveyId cfg0 \<Longrightarrow>
     choose_loop c (surveyId # ids) (m, ch) s = (Inl TypeError, s)"
  by simp

lemma loop_skipped:
  "surveyConfigurations s surveyId = Some cfg0 \<Longrightarrow> \<not> refuses_write s surveyId cfg0 \<Longrightarrow>
   \<not> num_gt (priority_number cfg0) m \<Longrightarrow>
     choose_loop c (surveyId # ids) (m, ch) s = choose_loop c ids (m, ch) (normalised_in s surveyId cfg0)"
  by (simp add: normalised_in_def)

lemma loop_checked:
  "surveyConfigurations s surveyId = Some cfg0 \<Longrightarrow> \<not> refuses_write s surveyId cfg0 \<Longrightarrow>
   num_gt (priority_number cfg0) m \<Longrightarrow>
   passesStorageRules c (normalizePriority cfg0) (normalised_in s surveyId cfg0) = (r, s2) \<Longrightarrow>
     choose_loop c (surveyId # ids) (m, ch) s =
       (case r of
          Inl e \<Rightarrow> (Inl e, s2)
        | Inr b \<Rightarrow> choose_loop c ids (if b then (priority_number cfg0, Some (normalizePriority cfg0)) else (m, ch)) s2)"
  by (simp add: normalised_in_def split: sum.split bool.split)

text \<open>The loop over a list in two parts.\<close>

lemma choose_loop_append:
  "choose_loop c (xs @ ys) acc s =
     (case choose_loop c xs acc s of
        (Inl e, s') \<Rightarrow> (Inl e, s')
      | (Inr acc', s') \<Rightarrow> choose_loop c ys acc' s')"
proof (induction xs arbitrary: acc s)
  case Nil
  show ?case by simp
next
  case (Cons i xs)
  obtain m ch where acc: "acc = (m, ch)" by (cases acc)
  show ?case
  proof (cases "surveyConfigurations s i")
    case None
    show ?thesis unfolding acc append_Cons loop_missing [OF None] by (rule Cons.IH)
  next
    case (Some cfg0)
    show ?thesis
    proof (cases "refuses_write s i cfg0")
      case True
      show ?thesis unfolding acc append_Cons loop_refused [OF Some True] by simp
    next
      case False
      note w = this
      show ?thesis
      proof (cases "num_gt (priority_number cfg0) m")
        case False
        show ?thesis unfolding acc append_Cons loop_skipped [OF Some w False] by (rule Cons.IH)
      next
        case True
        obtain r s2 where p: "passesStorageRules c (normalizePriority cfg0) (normalised_in s i cfg0) = (r, s2)"
          by (cases "passesStorageRules c (normalizePriority cfg0) (normalised_in s i cfg0)")
        show ?thesis unfolding acc append_Cons loop_checked [OF Some w True p]
          by (cases r) (simp_all add: Cons.IH)
      qed
    qed
  qed
qed

lemma normalised_in_fields [simp]:
  "localStorage (normalised_in s i cfg0) = localStorage s"
  "sessionStorage (normalised_in s i cfg0) = sessionStorage s"
  "clock (normalised_in s i cfg0) = clock s"
  "ticks (normalised_in s i cfg0) = ticks s"
  "random (normalised_in s i cfg0) = random s"
  "draws (normalised_in s i cfg0) = draws s"
  "events (normalised_in s i cfg0) = events s"
  "messages (normalised_in s i cfg0) = messages s"
  "frozen (normalised_in s i cfg0) = frozen s"
  "surveyConfigurations (normalised_in s i cfg0) = (surveyConfigurations s)(i \<mapsto> normalizePriority cfg0)"
  by (simp_all add: normalised_in_def)

lemma getItems_normalised_in [simp]: "getItems k (normalised_in s i cfg0) = getItems k s"
  by (rule getItems_cong) simp_all

lemma normalizePriority_fields [simp]:
  "survey_id (normalizePriority cfg) = survey_id cfg"
  "percentage (normalizePriority cfg) = percentage cfg"
  "quarantine (normalizePriority cfg) = quarantine cfg"
  "priority (normalizePriority cfg) = Number (priority_number cfg)"
  "priority_number (normalizePriority cfg) = priority_number cfg"
  by (simp_all add: normalizePriority_def priority_number_def)

lemma normalizePriority_idem [simp]: "normalizePriority (normalizePriority cfg) = normalizePriority cfg"
  by (simp add: normalizePriority_def priority_number_def)

subsection \<open>The engine does not depend on what the callbacks do\<close>

lemma emit_hooks: "(onEvent c = None \<longleftrightarrow> onEvent c' = None) \<Longrightarrow> emit c = emit c'"
  by (auto simp: emit_eq fun_eq_iff)

lemma log_hooks: "(logger c = None \<longleftrightarrow> logger c' = None) \<Longrightarrow> log c = log c'"
  by (auto simp: log_eq fun_eq_iff)

lemma passes_hooks:
  assumes "userSampling c = userSampling c'" "quarantineKeyPrefix c = quarantineKeyPrefix c'"
    "onEvent c = None \<longleftrightarrow> onEvent c' = None" "logger c = None \<longleftrightarrow> logger c' = None"
  shows "passesStorageRules c = passesStorageRules c'"
  unfolding passesStorageRules_def storage_key_def fun_eq_iff
    emit_hooks [OF assms(3)] log_hooks [OF assms(4)] assms(1,2)
  by simp

lemma choose_loop_hooks:
  assumes "userSampling c = userSampling c'" "quarantineKeyPrefix c = quarantineKeyPrefix c'"
    "onEvent c = None \<longleftrightarrow> onEvent c' = None" "logger c = None \<longleftrightarrow> logger c' = None"
  shows "choose_loop c ids acc s = choose_loop c' ids acc s"
proof (induction ids arbitrary: acc s)
  case Nil
  show ?case by simp
next
  case (Cons i ids)
  obtain m ch where acc: "acc = (m, ch)" by (cases acc)
  show ?case
    unfolding acc choose_loop.simps passes_hooks [OF assms] emit_hooks [OF assms(3)] Cons.IH ..
qed

lemma chooseSurvey_hooks:
  assumes "userSampling c = userSampling c'" "quarantineKeyPrefix c = quarantineKeyPrefix c'"
    "onEvent c = None \<longleftrightarrow> onEvent c' = None" "logger c = None \<longleftrightarrow> logger c' = None"
  shows "chooseSurvey c x s = chooseSurvey c' x s"
  unfolding chooseSurvey_def choose_loop_hooks [OF assms] emit_hooks [OF assms(3)] ..

lemma quarantineSurvey_hooks:
  assumes "quarantineKeyPrefix c = quarantineKeyPrefix c'" "onEvent c = None \<longleftrightarrow> onEvent c' = None"
  shows "quarantineSurvey c k d s = quarantineSurvey c' k d s"
  unfolding quarantineSurvey_def emit_hooks [OF assms(2)] assms(1) ..

declare choose_loop.simps(2) [simp del]

text \<open>
  Claim C9. Two runs of \<^verbatim>\<open>chooseSurvey\<close>, or of \<^verbatim>\<open>quarantineSurvey\<close>, on the same input
  and the same state (stores, clock, draws), one with callbacks \<open>f\<close> and \<open>g\<close> that throw
  whenever they like and one with callbacks \<open>f'\<close> and \<open>g'\<close>, return the same value and
  end in the same state: what a callback does never reaches the engine.
\<close>

theorem callbacks_are_isolated:
  "chooseSurvey (c\<lparr>onEvent := Some f, logger := Some g\<rparr>) x s
     = chooseSurvey (c\<lparr>onEvent := Some f', logger := Some g'\<rparr>) x s
   \<and> quarantineSurvey (c\<lparr>onEvent := Some f, logger := Some g\<rparr>) k d s
     = quarantineSurvey (c\<lparr>onEvent := Some f', logger := Some g'\<rparr>) k d s"
proof
  show "chooseSurvey (c\<lparr>onEvent := Some f, logger := Some g\<rparr>) x s
     = chooseSurvey (c\<lparr>onEvent := Some f', logger := Some g'\<rparr>) x s"
    by (rule chooseSurvey_hooks) simp_all
  show "quarantineSurvey (c\<lparr>onEvent := Some f, logger := Some g\<rparr>) k d s
     = quarantineSurvey (c\<lparr>onEvent := Some f', logger := Some g'\<rparr>) k d s"
    by (rule quarantineSurvey_hooks) simp_all
qed

theorem callbacks_are_isolated_witness:
  "chooseSurvey (demo_config\<lparr>onEvent := Some (\<lambda>ev. Threw), logger := Some (\<lambda>msg. Threw)\<rparr>)
       (Scalar (Str ''2467,27152'')) demo_state
     = chooseSurvey (demo_config\<lparr>onEvent := Some (\<lambda>ev. Returned), logger := Some (\<lambda>msg. Returned)\<rparr>)
       (Scalar (Str ''2467,27152'')) demo_state
   \<and> quarantineSurvey (demo_config\<lparr>onEvent := Some (\<lambda>ev. Threw), logger := Some (\<lambda>msg. Threw)\<rparr>)
       (Str ''2467'') (Number (Num 21)) demo_state
     = quarantineSurvey (demo_config\<lparr>onEvent := Some (\<lambda>ev. Returned), logger := Some (\<lambda>msg. Returned)\<rparr>)
       (Str ''2467'') (Number (Num 21)) demo_state"
  by (rule callbacks_are_isolated)

subsection \<open>Exceptions of the quarantine read and of the priority assignment\<close>

lemma readable_emit [simp]: "readable (emit c ev s) = readable s"
  by (simp add: readable_def)

lemma readable_log [simp]: "readable (log c m s) = readable s"
  by (simp add: readable_def)

lemma readable_normalised_in [simp]: "readable (normalised_in s i cfg0) = readable s"
  by (simp add: readable_def)

lemma readable_draws [simp]: "readable (s\<lparr>draws := n\<rparr>) = readable s"
  by (simp add: readable_def)











subsection \<open>A standing quarantine\<close>

lemma blocked_check:
  assumes "live_entry (clock s (ticks s)) (storage_key c (survey_id sv)) s"
  shows "passesStorageRules c sv s =
     (Inr False,
      log c (''SURVEY: survey '' @ ToString (survey_id sv) @ '' is quarantined'')
        (emit c (survey_quarantined_block (survey_id sv)) (s\<lparr>ticks := Suc (ticks s)\<rparr>)))"
proof -
  obtain v where g: "getWithExpiry (storage_key c (survey_id sv)) s = (Inr v, s\<lparr>ticks := Suc (ticks s)\<rparr>)"
    and v: "truthy v"
    using getWithExpiry_live [OF assms] by blast
  show ?thesis by (rule passes_blocked [OF g v])
qed

lemma live_entry_cong:
  "getItems k s' = getItems k s \<Longrightarrow> live_entry now k s' = live_entry now k s"
  by (simp add: live_entry_getItems)

lemma standing_passes:
  assumes inv: "\<forall>n. live_entry (clock s n) key s"
    and p: "passesStorageRules c sv s = (r, s')"
  shows "(\<forall>n. live_entry (clock s' n) key s') \<and> (storage_key c (survey_id sv) = key \<longrightarrow> r = Inr False)"
proof (cases "storage_key c (survey_id sv) = key")
  case True
  from inv True have "live_entry (clock s (ticks s)) (storage_key c (survey_id sv)) s" by simp
  note b = blocked_check [OF this]
  from p b have r: "r = Inr False"
    and s': "s' = log c (''SURVEY: survey '' @ ToString (survey_id sv) @ '' is quarantined'')
        (emit c (survey_quarantined_block (survey_id sv)) (s\<lparr>ticks := Suc (ticks s)\<rparr>))"
    by simp_all
  have gi: "getItems key s' = getItems key s" unfolding s' by (rule getItems_cong) simp_all
  have "clock s' = clock s" unfolding s' by simp
  then show ?thesis using inv r by (simp add: live_entry_cong [OF gi])
next
  case False
  then have ne: "key \<noteq> storage_key c (survey_id sv)" by blast
  note fr = passes_frame [OF p]
  have gi: "getItems key s' = getItems key s"
    by (rule getItems_cong) (simp_all add: fr(4) [OF ne] fr(5) [OF ne])
  from fr(2) inv False show ?thesis by (simp add: live_entry_cong [OF gi])
qed

lemma standing_loop:
  assumes "\<forall>n. live_entry (clock s n) key s"
    and "\<forall>x. ch = Some x \<longrightarrow> storage_key c (survey_id x) \<noteq> key"
    and "choose_loop c ids (m, ch) s = (Inr (m', ch'), s')"
  shows "\<forall>x. ch' = Some x \<longrightarrow> storage_key c (survey_id x) \<noteq> key"
  using assms
proof (induction ids arbitrary: m ch s)
  case Nil
  then show ?case by simp
next
  case (Cons i ids)
  show ?case
  proof (cases "surveyConfigurations s i")
    case None
    have inv: "\<forall>n. live_entry (clock (emit c (survey_missing_config i) s) n) key (emit c (survey_missing_config i) s)"
    proof -
      have "getItems key (emit c (survey_missing_config i) s) = getItems key s"
        by (rule getItems_cong) simp_all
      from live_entry_cong [OF this] Cons.prems(1) show ?thesis by simp
    qed
    from Cons.prems(3) have "choose_loop c ids (m, ch) (emit c (survey_missing_config i) s) = (Inr (m', ch'), s')"
      by (simp only: loop_missing [OF None])
    from Cons.IH [OF inv Cons.prems(2) this] show ?thesis .
  next
    case (Some cfg0)
    have w: "\<not> refuses_write s i cfg0"
    proof
      assume "refuses_write s i cfg0"
      from Cons.prems(3) [unfolded loop_refused [OF Some this]] show False by simp
    qed
    have inv: "\<forall>n. live_entry (clock (normalised_in s i cfg0) n) key (normalised_in s i cfg0)"
      using Cons.prems(1) live_entry_cong [OF getItems_normalised_in, of _ key s i cfg0] by simp
    show ?thesis
    proof (cases "num_gt (priority_number cfg0) m")
      case False
      from Cons.prems(3) have "choose_loop c ids (m, ch) (normalised_in s i cfg0) = (Inr (m', ch'), s')"
        by (simp only: loop_skipped [OF Some w False])
      from Cons.IH [OF inv Cons.prems(2) this] show ?thesis .
    next
      case True
      obtain r s2 where p: "passesStorageRules c (normalizePriority cfg0) (normalised_in s i cfg0) = (r, s2)"
        by (cases "passesStorageRules c (normalizePriority cfg0) (normalised_in s i cfg0)")
      from standing_passes [OF inv p]
      have inv2: "\<forall>n. live_entry (clock s2 n) key s2"
        and blk: "storage_key c (survey_id cfg0) = key \<longrightarrow> r = Inr False"
        by simp_all
      note l = Cons.prems(3) [unfolded loop_checked [OF Some w True p]]
      show ?thesis
      proof (cases r)
        case (Inl e)
        with l show ?thesis by simp
      next
        case (Inr b)
        show ?thesis
        proof (cases b)
          case True
          with Inr blk have k: "storage_key c (survey_id (normalizePriority cfg0)) \<noteq> key" by auto
          from l Inr True
          have "choose_loop c ids (priority_number cfg0, Some (normalizePriority cfg0)) s2 = (Inr (m', ch'), s')"
            by simp
          from Cons.IH [OF inv2 _ this] k show ?thesis by simp
        next
          case False
          with l Inr have "choose_loop c ids (m, ch) s2 = (Inr (m', ch'), s')" by simp
          from Cons.IH [OF inv2 Cons.prems(2) this] show ?thesis .
        qed
      qed
    qed
  qed
qed

lemma chooseSurvey_Some:
  assumes "fst (chooseSurvey c x s) = Inr (Some ch)"
  shows "\<exists>m s'. choose_loop c (normalizeSurveyIdToArray x) (Num (- 1), None) s = (Inr (m, Some ch), s')"
proof -
  obtain r s' where l: "choose_loop c (normalizeSurveyIdToArray x) (Num (- 1), None) s = (r, s')"
    by (cases "choose_loop c (normalizeSurveyIdToArray x) (Num (- 1), None) s")
  show ?thesis
  proof (cases r)
    case (Inl e)
    with assms l show ?thesis by (simp add: chooseSurvey_def Let_def split: if_splits)
  next
    case (Inr acc)
    obtain m o' where acc: "acc = (m, o')" by (cases acc)
    from assms l Inr acc show ?thesis
      by (cases o') (simp_all add: chooseSurvey_def Let_def split: if_splits)
  qed
qed


subsection \<open>The quarantine key\<close>

lemma quarantineSurvey_fields [simp]:
  "surveyConfigurations (quarantineSurvey c k d s) = surveyConfigurations s"
  "frozen (quarantineSurvey c k d s) = frozen s"
  "random (quarantineSurvey c k d s) = random s"
  "draws (quarantineSurvey c k d s) = draws s"
  "clock (quarantineSurvey c k d s) = clock s"
  by (simp_all add: quarantineSurvey_def Let_def)






subsection \<open>Which candidates are checked\<close>

text \<open>
  Claim C1, as the code has it. When the loop reaches a candidate that resolves in the
  registry, with running maximum \<open>m\<close> and current best \<open>ch\<close>: if its entry refuses the
  assignment of the normalised priority, the loop ends there with the TypeError, no check
  performed. Otherwise, if its coerced priority is strictly greater than \<open>m\<close>, the check
  is performed, and the loop goes on from the state and the result of the check (an
  exception ends it); and if it is not, no check is performed: the stores, the number of
  draws, the clock readings and the emitted events are those from before the candidate,
  and \<open>m\<close> and \<open>ch\<close> stay.
\<close>

theorem check_only_above_running_maximum:
  assumes "choose_loop c pre (Num (- 1), None) s = (Inr (m, ch), s1)"
    and "surveyConfigurations s1 surveyId = Some cfg0"
  shows "(refuses_write s1 surveyId cfg0 \<longrightarrow>
            choose_loop c (pre @ [surveyId]) (Num (- 1), None) s = (Inl TypeError, s1))
       \<and> (\<not> refuses_write s1 surveyId cfg0 \<and> num_gt (priority_number cfg0) m \<longrightarrow>
            choose_loop c (pre @ [surveyId]) (Num (- 1), None) s =
              (case passesStorageRules c (normalizePriority cfg0) (normalised_in s1 surveyId cfg0) of
                 (Inl e, s2) \<Rightarrow> (Inl e, s2)
               | (Inr True, s2) \<Rightarrow> (Inr (priority_number cfg0, Some (normalizePriority cfg0)), s2)
               | (Inr False, s2) \<Rightarrow> (Inr (m, ch), s2)))
       \<and> (\<not> refuses_write s1 surveyId cfg0 \<and> \<not> num_gt (priority_number cfg0) m \<longrightarrow>
            fst (choose_loop c (pre @ [surveyId]) (Num (- 1), None) s) = Inr (m, ch)
            \<and> localStorage (snd (choose_loop c (pre @ [surveyId]) (Num (- 1), None) s)) = localStorage s1
            \<and> sessionStorage (snd (choose_loop c (pre @ [surveyId]) (Num (- 1), None) s)) = sessionStorage s1
            \<and> draws (snd (choose_loop c (pre @ [surveyId]) (Num (- 1), None) s)) = draws s1
            \<and> ticks (snd (choose_loop c (pre @ [surveyId]) (Num (- 1), None) s)) = ticks s1
            \<and> events (snd (choose_loop c (pre @ [surveyId]) (Num (- 1), None) s)) = events s1)"
proof -
  have split: "choose_loop c (pre @ [surveyId]) (Num (- 1), None) s = choose_loop c [surveyId] (m, ch) s1"
    by (simp add: choose_loop_append assms(1))
  show ?thesis
  proof (cases "refuses_write s1 surveyId cfg0")
    case True
    show ?thesis
      unfolding split loop_refused [OF assms(2) True]
      using True by simp
  next
    case False
    note w = this
    show ?thesis
    proof (cases "num_gt (priority_number cfg0) m")
      case True
      obtain r s2 where p: "passesStorageRules c (normalizePriority cfg0) (normalised_in s1 surveyId cfg0) = (r, s2)"
        by (cases "passesStorageRules c (normalizePriority cfg0) (normalised_in s1 surveyId cfg0)")
      show ?thesis
        unfolding split loop_checked [OF assms(2) w True p] p
        using True w by (simp split: sum.split bool.split)
    next
      case False
      show ?thesis
        unfolding split loop_skipped [OF assms(2) w False]
        using False w by simp
    qed
  qed
qed

text \<open>
  In the set-up of UsageExample.js: survey 2467 is checked at its turn, survey 27152, of
  the same priority, is not. On the frozen registry the loop ends at survey 2467.
\<close>

theorem check_only_above_running_maximum_witness:
  "choose_loop demo_config [''2467''] (Num (- 1), None) demo_state
     = (Inr (Num 10, Some \<lparr>survey_id = Str ''2467'', priority = Number (Num 10),
                            percentage = Str ''100'', quarantine = Str ''21''\<rparr>),
        snd (choose_loop demo_config [''2467''] (Num (- 1), None) demo_state))
   \<and> surveyConfigurations (snd (choose_loop demo_config [''2467''] (Num (- 1), None) demo_state)) ''27152''
     = Some \<lparr>survey_id = Str ''27152'', priority = Number (Num 10), percentage = Str ''100'', quarantine = Str ''21''\<rparr>
   \<and> \<not> refuses_write (snd (choose_loop demo_config [''2467''] (Num (- 1), None) demo_state)) ''27152''
         \<lparr>survey_id = Str ''27152'', priority = Number (Num 10), percentage = Str ''100'', quarantine = Str ''21''\<rparr>
   \<and> \<not> num_gt (priority_number \<lparr>survey_id = Str ''27152'', priority = Number (Num 10),
                                 percentage = Str ''100'', quarantine = Str ''21''\<rparr>) (Num 10)
   \<and> fst (choose_loop demo_config ([''2467''] @ [''27152'']) (Num (- 1), None) demo_state)
     = Inr (Num 10, Some \<lparr>survey_id = Str ''2467'', priority = Number (Num 10),
                            percentage = Str ''100'', quarantine = Str ''21''\<rparr>)
   \<and> draws (snd (choose_loop demo_config ([''2467''] @ [''27152'']) (Num (- 1), None) demo_state))
     = draws (snd (choose_loop demo_config [''2467''] (Num (- 1), None) demo_state))
   \<and> \<not> refuses_write demo_state ''2467''
         \<lparr>survey_id = Str ''2467'', priority = Number (Num 10), percentage = Str ''100'', quarantine = Str ''21''\<rparr>
   \<and> num_gt (priority_number \<lparr>survey_id = Str ''2467'', priority = Number (Num 10),
                                 percentage = Str ''100'', quarantine = Str ''21''\<rparr>) (Num (- 1))
   \<and> choose_loop demo_config ([] @ [''2467'']) (Num (- 1), None) demo_state
     = (case passesStorageRules demo_config
               (normalizePriority \<lparr>survey_id = Str ''2467'', priority = Number (Num 10),
                                    percentage = Str ''100'', quarantine = Str ''21''\<rparr>)
               (normalised_in demo_state ''2467'' \<lparr>survey_id = Str ''2467'', priority = Number (Num 10),
                                    percentage = Str ''100'', quarantine = Str ''21''\<rparr>) of
          (Inl e, s2) \<Rightarrow> (Inl e, s2)
        | (Inr True, s2) \<Rightarrow>
            (Inr (priority_number \<lparr>survey_id = Str ''2467'', priority = Number (Num 10),
                                    percentage = Str ''100'', quarantine = Str ''21''\<rparr>,
                  Some (normalizePriority \<lparr>survey_id = Str ''2467'', priority = Number (Num 10),
                                    percentage = Str ''100'', quarantine = Str ''21''\<rparr>)), s2)
        | (Inr False, s2) \<Rightarrow> (Inr (Num (- 1), None), s2))
   \<and> surveyConfigurations frozen_state ''2467''
     = Some \<lparr>survey_id = Str ''2467'', priority = Str ''10'', percentage = Str ''100'', quarantine = Str ''21''\<rparr>
   \<and> refuses_write frozen_state ''2467''
         \<lparr>survey_id = Str ''2467'', priority = Str ''10'', percentage = Str ''100'', quarantine = Str ''21''\<rparr>
   \<and> choose_loop demo_config ([] @ [''2467'']) (Num (- 1), None) frozen_state = (Inl TypeError, frozen_state)"
proof -
  let ?a = "\<lparr>survey_id = Str ''2467'', priority = Number (Num 10), percentage = Str ''100'', quarantine = Str ''21''\<rparr>"
  let ?b = "\<lparr>survey_id = Str ''27152'', priority = Number (Num 10), percentage = Str ''100'', quarantine = Str ''21''\<rparr>"
  let ?f = "\<lparr>survey_id = Str ''2467'', priority = Str ''10'', percentage = Str ''100'', quarantine = Str ''21''\<rparr>"
  have f: "fst (choose_loop demo_config [''2467''] (Num (- 1), None) demo_state) = Inr (Num 10, Some ?a)"
    by (simp add: evaluation normalised_in_def choose_loop.simps)
  then have h1: "choose_loop demo_config [''2467''] (Num (- 1), None) demo_state
     = (Inr (Num 10, Some ?a), snd (choose_loop demo_config [''2467''] (Num (- 1), None) demo_state))"
    by (metis prod.collapse)
  have h2: "surveyConfigurations (snd (choose_loop demo_config [''2467''] (Num (- 1), None) demo_state)) ''27152''
     = Some ?b"
    by (simp add: evaluation normalised_in_def choose_loop.simps)
  have h2': "\<not> refuses_write (snd (choose_loop demo_config [''2467''] (Num (- 1), None) demo_state)) ''27152'' ?b"
    by (simp add: refuses_write_def)
  have h3: "\<not> num_gt (priority_number ?b) (Num 10)" by (simp add: evaluation normalised_in_def)
  note t = check_only_above_running_maximum [OF h1 h2, THEN conjunct2, THEN conjunct2, THEN mp, OF conjI, OF h2' h3]
  have g1: "choose_loop demo_config [] (Num (- 1), None) demo_state = (Inr (Num (- 1), None), demo_state)"
    by simp
  have g2: "surveyConfigurations demo_state ''2467'' = Some ?a" by (simp add: evaluation normalised_in_def)
  have g2': "\<not> refuses_write demo_state ''2467'' ?a" by (simp add: refuses_write_def)
  have g3: "num_gt (priority_number ?a) (Num (- 1))" by (simp add: evaluation normalised_in_def)
  note u = check_only_above_running_maximum [OF g1 g2, THEN conjunct2, THEN conjunct1, THEN mp, OF conjI, OF g2' g3]
  have k1: "choose_loop demo_config [] (Num (- 1), None) frozen_state = (Inr (Num (- 1), None), frozen_state)"
    by simp
  have k2: "surveyConfigurations frozen_state ''2467'' = Some ?f" by (simp add: evaluation frozen_state_def)
  have k3: "refuses_write frozen_state ''2467'' ?f" by (simp add: evaluation frozen_state_def)
  note v = check_only_above_running_maximum [OF k1 k2, THEN conjunct1, THEN mp, OF k3]
  from h1 h2 h2' h3 t [THEN conjunct1] t [THEN conjunct2, THEN conjunct2, THEN conjunct2, THEN conjunct1]
    g2' g3 u k2 k3 v
  show ?thesis by (intro conjI)
qed

text \<open>
  Against claim C1 as stated. In the set-up of UsageExample.js both surveys resolve and
  have priority 10. \<^verbatim>\<open>chooseSurvey("2467,27152")\<close> chooses 2467 and never checks 27152:
  one draw is made in all, neither store holds a record for 27152 (its check would have
  passed and written a 21 day quarantine), and no event names it.
\<close>

theorem short_circuit_counterexample:
  "normalizeSurveyIdToArray (Scalar (Str ''2467,27152'')) = [''2467'', ''27152'']
   \<and> surveyConfigurations demo_state ''27152''
     = Some \<lparr>survey_id = Str ''27152'', priority = Number (Num 10), percentage = Str ''100'', quarantine = Str ''21''\<rparr>
   \<and> fst (chooseSurvey demo_config (Scalar (Str ''2467,27152'')) demo_state)
     = Inr (Some \<lparr>survey_id = Str ''2467'', priority = Number (Num 10), percentage = Str ''100'', quarantine = Str ''21''\<rparr>)
   \<and> draws (snd (chooseSurvey demo_config (Scalar (Str ''2467,27152'')) demo_state)) = 1
   \<and> localStorage (snd (chooseSurvey demo_config (Scalar (Str ''2467,27152'')) demo_state)) ''neb_27152'' = None
   \<and> sessionStorage (snd (chooseSurvey demo_config (Scalar (Str ''2467,27152'')) demo_state)) ''neb_27152'' = None
   \<and> events (snd (chooseSurvey demo_config (Scalar (Str ''2467,27152'')) demo_state))
     = [survey_quarantine_set_on_sample (Str ''2467'') (Num 21),
        survey_included_by_sampling (Str ''2467'') (Num 100),
        survey_chosen (Str ''2467'') (Number (Num 10))]
   \<and> fst (passesStorageRules demo_config
        \<lparr>survey_id = Str ''27152'', priority = Number (Num 10), percentage = Str ''100'', quarantine = Str ''21''\<rparr>
        (snd (choose_loop demo_config [''2467''] (Num (- 1), None) demo_state))) = Inr True"
  by (simp add: evaluation choose_loop.simps)

subsection \<open>The highest priority wins, the first among equals\<close>

lemma candidate_normalised_in:
  "surveyConfigurations s i = Some cfg0 \<Longrightarrow> candidate (normalised_in s i cfg0) = candidate s"
  by (auto simp: fun_eq_iff candidate_def)

lemma candidate_registry:
  "surveyConfigurations s' = surveyConfigurations s \<Longrightarrow> candidate s' = candidate s"
  by (simp add: fun_eq_iff candidate_def)

lemma priority_at_candidate:
  "priority_at s ids j =
     (case candidate s (ids ! j) of
        None \<Rightarrow> None
      | Some cfg \<Rightarrow> (case priority_number cfg of NaN \<Rightarrow> None | Num q \<Rightarrow> Some q))"
  by (simp add: priority_at_def candidate_def split: option.split)

lemma loop_candidate:
  "choose_loop c ids acc s = (r, s') \<Longrightarrow> candidate s' = candidate s"
proof (induction ids arbitrary: acc s)
  case Nil
  then show ?case by simp
next
  case (Cons i ids)
  obtain m ch where acc: "acc = (m, ch)" by (cases acc)
  show ?case
  proof (cases "surveyConfigurations s i")
    case None
    from Cons.prems have "choose_loop c ids (m, ch) (emit c (survey_missing_config i) s) = (r, s')"
      unfolding acc loop_missing [OF None] .
    from Cons.IH [OF this] candidate_registry [of "emit c (survey_missing_config i) s" s]
    show ?thesis by simp
  next
    case (Some cfg0)
    note cn = candidate_normalised_in [OF Some]
    show ?thesis
    proof (cases "refuses_write s i cfg0")
      case True
      from Cons.prems [unfolded acc loop_refused [OF Some True]] show ?thesis by simp
    next
      case False
      note w = this
      show ?thesis
      proof (cases "num_gt (priority_number cfg0) m")
        case False
        from Cons.prems have "choose_loop c ids (m, ch) (normalised_in s i cfg0) = (r, s')"
          unfolding acc loop_skipped [OF Some w False] .
        from Cons.IH [OF this] cn show ?thesis by simp
      next
        case True
        obtain r2 s2 where p: "passesStorageRules c (normalizePriority cfg0) (normalised_in s i cfg0) = (r2, s2)"
          by (cases "passesStorageRules c (normalizePriority cfg0) (normalised_in s i cfg0)")
        have c2: "candidate s2 = candidate s"
          using candidate_registry [OF passes_frame(1) [OF p]] cn by simp
        note l = Cons.prems [unfolded acc loop_checked [OF Some w True p]]
        show ?thesis
        proof (cases r2)
          case (Inl e)
          with l have "s' = s2" by simp
          with c2 show ?thesis by simp
        next
          case (Inr b)
          with l have "choose_loop c ids (if b then (priority_number cfg0, Some (normalizePriority cfg0)) else (m, ch)) s2 = (r, s')"
            by simp
          from Cons.IH [OF this] c2 show ?thesis by simp
        qed
      qed
    qed
  qed
qed

lemma loop_snoc:
  assumes "choose_loop c (xs @ [i]) acc s = (Inr a, s')"
  obtains a1 s1 where "choose_loop c xs acc s = (Inr a1, s1)" "choose_loop c [i] a1 s1 = (Inr a, s')"
proof -
  obtain r1 s1 where l: "choose_loop c xs acc s = (r1, s1)" by (cases "choose_loop c xs acc s")
  show ?thesis
  proof (cases r1)
    case (Inl e)
    with assms l show ?thesis by (simp add: choose_loop_append)
  next
    case (Inr a1)
    with assms l have "choose_loop c [i] a1 s1 = (Inr a, s')" by (simp add: choose_loop_append)
    with l Inr that show ?thesis by blast
  qed
qed

lemma selection_invariant:
  assumes "n \<le> length ids"
    and "choose_loop c (take n ids) (Num (- 1), None) s = (Inr (mp, ch), sn)"
  shows "\<exists>m. mp = Num m \<and> - 1 \<le> m \<and> (ch = None \<longrightarrow> m = - 1)
     \<and> (\<forall>x. ch = Some x \<longrightarrow> - 1 < m \<and>
           (\<exists>i<n. candidate s (ids ! i) = Some x \<and> eligible_at c ids s i \<and> priority_at s ids i = Some m
              \<and> (\<forall>k<i. \<forall>q. eligible_at c ids s k \<and> priority_at s ids k = Some q \<longrightarrow> q < m)))
     \<and> (\<forall>k<n. \<forall>q. eligible_at c ids s k \<and> priority_at s ids k = Some q \<longrightarrow> q \<le> m)"
  using assms
proof (induction n arbitrary: mp ch sn)
  case 0
  then show ?case by simp
next
  case (Suc n)
  let ?i = "ids ! n"
  from Suc.prems(1) have n: "n < length ids" by simp
  then have tk: "take (Suc n) ids = take n ids @ [?i]" by (rule take_Suc_conv_app_nth)
  from Suc.prems(2) [unfolded tk]
  obtain a0 s0 where l0: "choose_loop c (take n ids) (Num (- 1), None) s = (Inr a0, s0)"
    and st: "choose_loop c [?i] a0 s0 = (Inr (mp, ch), sn)"
    by (rule loop_snoc)
  obtain mp0 ch0 where a0: "a0 = (mp0, ch0)" by (cases a0)
  from n have n': "n \<le> length ids" by simp
  from Suc.IH [OF n' l0 [unfolded a0]]
  obtain m0 where m0: "mp0 = Num m0" and lo: "- 1 \<le> m0" and none: "ch0 = None \<longrightarrow> m0 = - 1"
    and some: "\<forall>x. ch0 = Some x \<longrightarrow> - 1 < m0 \<and>
           (\<exists>i<n. candidate s (ids ! i) = Some x \<and> eligible_at c ids s i \<and> priority_at s ids i = Some m0
              \<and> (\<forall>k<i. \<forall>q. eligible_at c ids s k \<and> priority_at s ids k = Some q \<longrightarrow> q < m0))"
    and below: "\<forall>k<n. \<forall>q. eligible_at c ids s k \<and> priority_at s ids k = Some q \<longrightarrow> q \<le> m0"
    by blast
  have cand: "candidate s0 = candidate s" by (rule loop_candidate [OF l0])
  have el: "eligible_at c ids s n =
      (case surveyConfigurations s0 ?i of
         None \<Rightarrow> False
       | Some cfg0 \<Rightarrow>
           \<not> refuses_write s0 ?i cfg0
           \<and> fst (passesStorageRules c (normalizePriority cfg0) (normalised_in s0 ?i cfg0)) = Inr True)"
    by (simp add: eligible_at_def l0)
  have keep: ?case if same: "mp = mp0" "ch = ch0"
    and here: "\<forall>q. eligible_at c ids s n \<and> priority_at s ids n = Some q \<longrightarrow> q \<le> m0"
  proof -
    have b: "\<forall>k<Suc n. \<forall>q. eligible_at c ids s k \<and> priority_at s ids k = Some q \<longrightarrow> q \<le> m0"
      using below here by (auto simp: less_Suc_eq)
    have s: "\<forall>x. ch0 = Some x \<longrightarrow> - 1 < m0 \<and>
           (\<exists>i<Suc n. candidate s (ids ! i) = Some x \<and> eligible_at c ids s i \<and> priority_at s ids i = Some m0
              \<and> (\<forall>k<i. \<forall>q. eligible_at c ids s k \<and> priority_at s ids k = Some q \<longrightarrow> q < m0))"
      using some less_Suc_eq by blast
    from m0 lo none s b show ?thesis unfolding same by blast
  qed
  show ?case
  proof (cases "surveyConfigurations s0 ?i")
    case None
    from st have "mp = mp0" "ch = ch0" unfolding a0 loop_missing [OF None] by simp_all
    moreover from el None have "\<not> eligible_at c ids s n" by simp
    ultimately show ?thesis by (intro keep) simp_all
  next
    case (Some cfg0)
    have w: "\<not> refuses_write s0 ?i cfg0"
    proof
      assume "refuses_write s0 ?i cfg0"
      from st [unfolded a0 loop_refused [OF Some this]] show False by simp
    qed
    have cn: "candidate s ?i = Some (normalizePriority cfg0)"
    proof -
      from cand have "candidate s ?i = candidate s0 ?i" by simp
      with Some show ?thesis by (simp add: candidate_def)
    qed
    have pa: "priority_at s ids n = (case priority_number cfg0 of NaN \<Rightarrow> None | Num q \<Rightarrow> Some q)"
      by (simp add: priority_at_candidate cn)
    show ?thesis
    proof (cases "num_gt (priority_number cfg0) mp0")
      case False
      from st have "mp = mp0" "ch = ch0" unfolding a0 loop_skipped [OF Some w False] by simp_all
      moreover from False m0 pa have "\<forall>q. eligible_at c ids s n \<and> priority_at s ids n = Some q \<longrightarrow> q \<le> m0"
        by (cases "priority_number cfg0") auto
      ultimately show ?thesis by (intro keep) simp_all
    next
      case True
      with m0 obtain q where q: "priority_number cfg0 = Num q" and qm: "m0 < q"
        by (cases "priority_number cfg0") auto
      from pa q have paq: "priority_at s ids n = Some q" by simp
      obtain r2 s2 where p: "passesStorageRules c (normalizePriority cfg0) (normalised_in s0 ?i cfg0) = (r2, s2)"
        by (cases "passesStorageRules c (normalizePriority cfg0) (normalised_in s0 ?i cfg0)")
      note st' = st [unfolded a0 loop_checked [OF Some w True p]]
      from el Some p w have el': "eligible_at c ids s n = (r2 = Inr True)" by simp
      show ?thesis
      proof (cases r2)
        case (Inl e)
        with st' show ?thesis by simp
      next
        case (Inr b)
        show ?thesis
        proof (cases b)
          case False
          with st' Inr have "mp = mp0" "ch = ch0" by simp_all
          moreover from el' Inr False have "\<not> eligible_at c ids s n" by simp
          ultimately show ?thesis by (intro keep) simp_all
        next
          case True
          with st' Inr q have mp: "mp = Num q" and ch: "ch = Some (normalizePriority cfg0)" by simp_all
          from el' Inr True have eln: "eligible_at c ids s n" by simp
          have before: "\<forall>k<n. \<forall>q'. eligible_at c ids s k \<and> priority_at s ids k = Some q' \<longrightarrow> q' < q"
            using below qm by fastforce
          have upto: "\<forall>k<Suc n. \<forall>q'. eligible_at c ids s k \<and> priority_at s ids k = Some q' \<longrightarrow> q' \<le> q"
          proof (intro allI impI)
            fix k q'
            assume "k < Suc n" and e: "eligible_at c ids s k \<and> priority_at s ids k = Some q'"
            then consider "k < n" | "k = n" by (auto simp: less_Suc_eq)
            then show "q' \<le> q"
            proof cases
              case 1
              with before e have "q' < q" by blast
              then show ?thesis by simp
            next
              case 2
              with e paq show ?thesis by simp
            qed
          qed
          have chosen: "\<exists>i<Suc n. candidate s (ids ! i) = Some (normalizePriority cfg0) \<and> eligible_at c ids s i
               \<and> priority_at s ids i = Some q
               \<and> (\<forall>k<i. \<forall>q'. eligible_at c ids s k \<and> priority_at s ids k = Some q' \<longrightarrow> q' < q)"
            using cn eln paq before by (intro exI [of _ n]) simp
          from lo qm have "- 1 < q" "- 1 \<le> q" by simp_all
          with chosen upto show ?thesis unfolding mp ch by simp
        qed
      qed
    qed
  qed
qed

lemma chooseSurvey_result:
  assumes "normalizeSurveyIdToArray x = ids" and "ids \<noteq> []" and "fst (chooseSurvey c x s) = Inr r"
  shows "\<exists>mp s'. choose_loop c ids (Num (- 1), None) s = (Inr (mp, r), s')"
proof -
  obtain r1 s1 where l: "choose_loop c ids (Num (- 1), None) s = (r1, s1)"
    by (cases "choose_loop c ids (Num (- 1), None) s")
  show ?thesis
  proof (cases r1)
    case (Inl e)
    with assms l show ?thesis by (simp add: chooseSurvey_def)
  next
    case (Inr acc)
    obtain mp o' where acc: "acc = (mp, o')" by (cases acc)
    from assms l Inr acc show ?thesis
      by (cases o') (simp_all add: chooseSurvey_def)
  qed
qed

lemma candidate_priority:
  assumes "candidate s i = Some ch" and "priority_at s ids j = Some m" and "ids ! j = i"
  shows "priority ch = Number (Num m)"
proof -
  from assms(1) obtain cfg0 where r: "surveyConfigurations s i = Some cfg0" and ch: "ch = normalizePriority cfg0"
    by (auto simp: candidate_def)
  from assms(2) r assms(3) have "priority_number cfg0 = Num m"
    by (simp add: priority_at_def split: number.splits)
  then show ?thesis by (simp add: ch)
qed

text \<open>
  Claim C5, as the code has it. Take a call of \<^verbatim>\<open>chooseSurvey\<close> that returns. A survey it
  returns is the registry entry of a candidate \<open>i\<close> that is eligible at its turn, whose
  priority is an integer \<open>m\<close> above -1, the initial running maximum, at least that of every
  eligible candidate and strictly above that of every eligible candidate before \<open>i\<close> in
  the list; so an eligible candidate whose priority is -1 or less, or NaN, is never
  returned. And when some candidate of the list is eligible at its turn with an integer
  priority above -1, the call does return a survey.
\<close>

theorem highest_priority_first_wins:
  assumes "normalizeSurveyIdToArray x = ids" and "fst (chooseSurvey c x s) = Inr r"
  shows "(\<forall>ch. r = Some ch \<longrightarrow>
            (\<exists>i m. i < length ids \<and> candidate s (ids ! i) = Some ch \<and> eligible_at c ids s i
               \<and> priority_at s ids i = Some m \<and> priority ch = Number (Num m) \<and> - 1 < m
               \<and> (\<forall>k<length ids. \<forall>q. eligible_at c ids s k \<and> priority_at s ids k = Some q \<longrightarrow>
                     q \<le> m \<and> (k < i \<longrightarrow> q < m))))
       \<and> ((\<exists>j p. j < length ids \<and> eligible_at c ids s j \<and> priority_at s ids j = Some p \<and> - 1 < p)
            \<longrightarrow> r \<noteq> None)"
proof (cases "ids = []")
  case True
  with assms have "r = None" by (simp add: chooseSurvey_def)
  with True show ?thesis by simp
next
  case False
  obtain mp s' where l: "choose_loop c ids (Num (- 1), None) s = (Inr (mp, r), s')"
    using chooseSurvey_result [OF assms(1) False assms(2)] by blast
  have "choose_loop c (take (length ids) ids) (Num (- 1), None) s = (Inr (mp, r), s')"
    using l by simp
  from selection_invariant [OF le_refl this]
  obtain m where "mp = Num m" and none: "r = None \<longrightarrow> m = - 1"
    and some: "\<forall>x. r = Some x \<longrightarrow> - 1 < m \<and>
           (\<exists>i<length ids. candidate s (ids ! i) = Some x \<and> eligible_at c ids s i \<and> priority_at s ids i = Some m
              \<and> (\<forall>k<i. \<forall>q. eligible_at c ids s k \<and> priority_at s ids k = Some q \<longrightarrow> q < m))"
    and below: "\<forall>k<length ids. \<forall>q. eligible_at c ids s k \<and> priority_at s ids k = Some q \<longrightarrow> q \<le> m"
    by blast
  have a: "\<exists>i m. i < length ids \<and> candidate s (ids ! i) = Some ch \<and> eligible_at c ids s i
               \<and> priority_at s ids i = Some m \<and> priority ch = Number (Num m) \<and> - 1 < m
               \<and> (\<forall>k<length ids. \<forall>q. eligible_at c ids s k \<and> priority_at s ids k = Some q \<longrightarrow>
                     q \<le> m \<and> (k < i \<longrightarrow> q < m))"
    if ch: "r = Some ch" for ch
  proof -
    from some ch obtain i where gt: "- 1 < m" and i: "i < length ids" "candidate s (ids ! i) = Some ch"
      "eligible_at c ids s i" "priority_at s ids i = Some m"
      and first: "\<forall>k<i. \<forall>q. eligible_at c ids s k \<and> priority_at s ids k = Some q \<longrightarrow> q < m"
      by blast
    have pr: "priority ch = Number (Num m)" by (rule candidate_priority [OF i(2) i(4) refl])
    have "\<forall>k<length ids. \<forall>q. eligible_at c ids s k \<and> priority_at s ids k = Some q \<longrightarrow>
            q \<le> m \<and> (k < i \<longrightarrow> q < m)"
      using below first by blast
    with i pr gt show ?thesis by blast
  qed
  have b: "r \<noteq> None"
    if "\<exists>j p. j < length ids \<and> eligible_at c ids s j \<and> priority_at s ids j = Some p \<and> - 1 < p"
  proof -
    from that obtain j p where "j < length ids" "eligible_at c ids s j" "priority_at s ids j = Some p" "- 1 < p"
      by blast
    with below have "p \<le> m" "- 1 < p" by blast+
    with none show ?thesis by auto
  qed
  from a b show ?thesis by blast
qed

text \<open>
  Three surveys shown to everyone, offered as "A,B,C": B, of priority "10", is returned,
  before C of the same priority and above A of priority 5.
\<close>

theorem highest_priority_first_wins_witness:
  "normalizeSurveyIdToArray (Scalar (Str ''A,B,C'')) = [''A'', ''B'', ''C'']
   \<and> fst (chooseSurvey demo_config (Scalar (Str ''A,B,C'')) tie_state)
       = Inr (Some \<lparr>survey_id = Str ''B'', priority = Number (Num 10), percentage = Str ''100'', quarantine = Str ''0''\<rparr>)
   \<and> (\<exists>i m. i < length [''A'', ''B'', ''C'']
        \<and> candidate tie_state ([''A'', ''B'', ''C''] ! i)
            = Some \<lparr>survey_id = Str ''B'', priority = Number (Num 10), percentage = Str ''100'', quarantine = Str ''0''\<rparr>
        \<and> eligible_at demo_config [''A'', ''B'', ''C''] tie_state i
        \<and> priority_at tie_state [''A'', ''B'', ''C''] i = Some m
        \<and> priority \<lparr>survey_id = Str ''B'', priority = Number (Num 10), percentage = Str ''100'', quarantine = Str ''0''\<rparr>
            = Number (Num m)
        \<and> - 1 < m
        \<and> (\<forall>k<length [''A'', ''B'', ''C'']. \<forall>q.
              eligible_at demo_config [''A'', ''B'', ''C''] tie_state k
              \<and> priority_at tie_state [''A'', ''B'', ''C''] k = Some q \<longrightarrow> q \<le> m \<and> (k < i \<longrightarrow> q < m)))
   \<and> (2::nat) < length [''A'', ''B'', ''C'']
   \<and> eligible_at demo_config [''A'', ''B'', ''C''] tie_state 2
   \<and> priority_at tie_state [''A'', ''B'', ''C''] 2 = Some 10
   \<and> (- 1 :: int) < 10
   \<and> Some \<lparr>survey_id = Str ''B'', priority = Number (Num 10), percentage = Str ''100'', quarantine = Str ''0''\<rparr> \<noteq> None"
proof -
  let ?B = "\<lparr>survey_id = Str ''B'', priority = Number (Num 10), percentage = Str ''100'', quarantine = Str ''0''\<rparr>"
  note ev = evaluation tie_state_def candidate_def eligible_at_def priority_at_def normalised_in_def
  have h1: "normalizeSurveyIdToArray (Scalar (Str ''A,B,C'')) = [''A'', ''B'', ''C'']"
    by (simp add: ev)
  have h2: "fst (chooseSurvey demo_config (Scalar (Str ''A,B,C'')) tie_state) = Inr (Some ?B)"
    by (simp add: ev choose_loop.simps)
  have h3: "(2::nat) < length [''A'', ''B'', ''C'']" by simp
  have h4: "eligible_at demo_config [''A'', ''B'', ''C''] tie_state 2"
    by (simp add: ev choose_loop.simps)
  have h5: "priority_at tie_state [''A'', ''B'', ''C''] 2 = Some 10"
    by (simp add: ev)
  have h6: "(- 1 :: int) < 10" by simp
  note t = highest_priority_first_wins [OF h1 h2]
  note t1 = t [THEN conjunct1, THEN spec, THEN mp, OF refl]
  have "\<exists>j p. j < length [''A'', ''B'', ''C''] \<and> eligible_at demo_config [''A'', ''B'', ''C''] tie_state j
      \<and> priority_at tie_state [''A'', ''B'', ''C''] j = Some p \<and> - 1 < p"
    using h3 h4 h5 h6 by blast
  note t2 = t [THEN conjunct2, THEN mp, OF this]
  from h1 h2 t1 h3 h4 h5 h6 t2 show ?thesis by (intro conjI)
qed

text \<open>
  Against claim C5 as stated. The only candidate has priority -1 and is eligible: its
  check, called where the loop stands, returns true. \<^verbatim>\<open>chooseSurvey\<close> returns null, since
  -1 is not greater than the initial running maximum -1.
\<close>

theorem eligible_but_not_chosen_counterexample:
  "normalizeSurveyIdToArray (Scalar (Str ''2467'')) = [''2467'']
   \<and> eligible_at demo_config [''2467''] low_priority_state 0
   \<and> priority_at low_priority_state [''2467''] 0 = Some (- 1)
   \<and> fst (chooseSurvey demo_config (Scalar (Str ''2467'')) low_priority_state) = Inr None"
  by (simp add: evaluation low_priority_state_def eligible_at_def priority_at_def normalised_in_def choose_loop.simps)

subsection \<open>A quarantined survey is not chosen\<close>

lemma chosen_was_not_quarantined:
  assumes "fst (chooseSurvey c x s) = Inr (Some ch)"
  shows "\<exists>i<length (normalizeSurveyIdToArray x).
           candidate s (normalizeSurveyIdToArray x ! i) = Some ch
           \<and> \<not> live_entry (clock (reached c (normalizeSurveyIdToArray x) s i)
                               (ticks (reached c (normalizeSurveyIdToArray x) s i)))
                  (storage_key c (survey_id ch)) (reached c (normalizeSurveyIdToArray x) s i)"
proof -
  let ?ids = "normalizeSurveyIdToArray x"
  from assms have ne: "?ids \<noteq> []" by (auto simp: chooseSurvey_def)
  obtain mp s' where l: "choose_loop c ?ids (Num (- 1), None) s = (Inr (mp, Some ch), s')"
    using chooseSurvey_result [OF refl ne assms] by blast
  then have "choose_loop c (take (length ?ids) ?ids) (Num (- 1), None) s = (Inr (mp, Some ch), s')"
    by simp
  from selection_invariant [OF le_refl this]
  obtain i where i: "i < length ?ids" and ci: "candidate s (?ids ! i) = Some ch"
    and el: "eligible_at c ?ids s i"
    by blast
  obtain r1 si where li: "choose_loop c (take i ?ids) (Num (- 1), None) s = (r1, si)"
    by (cases "choose_loop c (take i ?ids) (Num (- 1), None) s")
  then have re: "reached c ?ids s i = si" by (simp add: reached_def)
  from el li obtain cfg0 where r: "surveyConfigurations si (?ids ! i) = Some cfg0"
    and p: "fst (passesStorageRules c (normalizePriority cfg0) (normalised_in si (?ids ! i) cfg0)) = Inr True"
    by (auto simp: eligible_at_def split: sum.splits option.splits)
  have "candidate si = candidate s" by (rule loop_candidate [OF li])
  then have "candidate s (?ids ! i) = candidate si (?ids ! i)" by simp
  also from r have "\<dots> = Some (normalizePriority cfg0)" by (simp add: candidate_def)
  finally have ch: "ch = normalizePriority cfg0" using ci by simp
  have "\<not> live_entry (clock si (ticks si)) (storage_key c (survey_id ch)) si"
  proof
    assume "live_entry (clock si (ticks si)) (storage_key c (survey_id ch)) si"
    then have "live_entry (clock (normalised_in si (?ids ! i) cfg0) (ticks (normalised_in si (?ids ! i) cfg0)))
        (storage_key c (survey_id (normalizePriority cfg0))) (normalised_in si (?ids ! i) cfg0)"
      using live_entry_cong [OF getItems_normalised_in, of _ _ si "?ids ! i" cfg0] by (simp add: ch)
    from blocked_check [OF this] p show False by simp
  qed
  with i ci re show ?thesis by auto
qed

text \<open>
  Claim C3, as the code has it. A survey whose quarantine entry is present and unexpired
  where the check looks for it (in the durable store, or in the session store when the
  durable store holds nothing under the key) is ineligible: the check returns false,
  makes no draw, leaves both stores as they are and emits \<^verbatim>\<open>survey_quarantined_block\<close>,
  whatever the percentage. So a survey that \<^verbatim>\<open>chooseSurvey\<close> returns was taken at a turn
  of the loop where it had no such entry; and when the entry is unexpired at every
  reading of the clock, no survey with that quarantine key is returned.
\<close>

theorem quarantined_survey_is_blocked:
  assumes "live_entry (clock s (ticks s)) (storage_key c (survey_id sv)) s"
  shows "fst (passesStorageRules c sv s) = Inr False
       \<and> draws (snd (passesStorageRules c sv s)) = draws s
       \<and> localStorage (snd (passesStorageRules c sv s)) = localStorage s
       \<and> sessionStorage (snd (passesStorageRules c sv s)) = sessionStorage s
       \<and> events (snd (passesStorageRules c sv s)) = events s @ received c (survey_quarantined_block (survey_id sv))
       \<and> (\<forall>ch. fst (chooseSurvey c x s) = Inr (Some ch) \<longrightarrow>
            (\<exists>i<length (normalizeSurveyIdToArray x).
               candidate s (normalizeSurveyIdToArray x ! i) = Some ch
               \<and> \<not> live_entry (clock (reached c (normalizeSurveyIdToArray x) s i)
                                   (ticks (reached c (normalizeSurveyIdToArray x) s i)))
                      (storage_key c (survey_id ch)) (reached c (normalizeSurveyIdToArray x) s i)))
       \<and> ((\<forall>n. live_entry (clock s n) (storage_key c (survey_id sv)) s) \<longrightarrow>
            (\<forall>ch. fst (chooseSurvey c x s) = Inr (Some ch) \<longrightarrow>
                  storage_key c (survey_id ch) \<noteq> storage_key c (survey_id sv)))"
proof -
  note b = blocked_check [OF assms]
  have w: "\<forall>ch. fst (chooseSurvey c x s) = Inr (Some ch) \<longrightarrow>
                  storage_key c (survey_id ch) \<noteq> storage_key c (survey_id sv)"
    if inv: "\<forall>n. live_entry (clock s n) (storage_key c (survey_id sv)) s"
  proof (intro allI impI)
    fix ch
    assume "fst (chooseSurvey c x s) = Inr (Some ch)"
    then obtain m s' where
      l: "choose_loop c (normalizeSurveyIdToArray x) (Num (- 1), None) s = (Inr (m, Some ch), s')"
      using chooseSurvey_Some by blast
    from standing_loop [OF inv _ l]
    show "storage_key c (survey_id ch) \<noteq> storage_key c (survey_id sv)" by simp
  qed
  from w chosen_was_not_quarantined [of c x s] show ?thesis by (simp add: b)
qed

text \<open>
  The visitor under a session quarantine for survey 2467: the check blocks the survey,
  and \<^verbatim>\<open>chooseSurvey("2467,27152")\<close> returns the other one.
\<close>

theorem quarantined_survey_is_blocked_witness:
  "live_entry (clock quarantined_visitor (ticks quarantined_visitor))
      (storage_key demo_config (survey_id rare_survey)) quarantined_visitor
   \<and> (\<forall>n. live_entry (clock quarantined_visitor n)
      (storage_key demo_config (survey_id rare_survey)) quarantined_visitor)
   \<and> fst (passesStorageRules demo_config rare_survey quarantined_visitor) = Inr False
   \<and> draws (snd (passesStorageRules demo_config rare_survey quarantined_visitor)) = draws quarantined_visitor
   \<and> fst (chooseSurvey demo_config (Scalar (Str ''2467,27152'')) quarantined_visitor)
       = Inr (Some \<lparr>survey_id = Str ''27152'', priority = Number (Num 10),
                     percentage = Str ''100'', quarantine = Str ''21''\<rparr>)
   \<and> storage_key demo_config (survey_id \<lparr>survey_id = Str ''27152'', priority = Number (Num 10),
                     percentage = Str ''100'', quarantine = Str ''21''\<rparr>)
       \<noteq> storage_key demo_config (survey_id rare_survey)
   \<and> (\<exists>i<length (normalizeSurveyIdToArray (Scalar (Str ''2467,27152''))).
         candidate quarantined_visitor (normalizeSurveyIdToArray (Scalar (Str ''2467,27152'')) ! i)
           = Some \<lparr>survey_id = Str ''27152'', priority = Number (Num 10),
                     percentage = Str ''100'', quarantine = Str ''21''\<rparr>
         \<and> \<not> live_entry
               (clock (reached demo_config (normalizeSurveyIdToArray (Scalar (Str ''2467,27152''))) quarantined_visitor i)
                 (ticks (reached demo_config (normalizeSurveyIdToArray (Scalar (Str ''2467,27152''))) quarantined_visitor i)))
               (storage_key demo_config (survey_id \<lparr>survey_id = Str ''27152'', priority = Number (Num 10),
                     percentage = Str ''100'', quarantine = Str ''21''\<rparr>))
               (reached demo_config (normalizeSurveyIdToArray (Scalar (Str ''2467,27152''))) quarantined_visitor i))"
proof -
  have h: "\<forall>n. live_entry (clock quarantined_visitor n)
      (storage_key demo_config (survey_id rare_survey)) quarantined_visitor"
    by (simp add: evaluation rare_survey_def quarantined_visitor_def live_entry_def live_record_def
        no_durable_text_def)
  then have h0: "live_entry (clock quarantined_visitor (ticks quarantined_visitor))
      (storage_key demo_config (survey_id rare_survey)) quarantined_visitor" by blast
  note t = quarantined_survey_is_blocked [OF h0, of "Scalar (Str ''2467,27152'')"]
  have e: "fst (chooseSurvey demo_config (Scalar (Str ''2467,27152'')) quarantined_visitor)
       = Inr (Some \<lparr>survey_id = Str ''27152'', priority = Number (Num 10),
                     percentage = Str ''100'', quarantine = Str ''21''\<rparr>)"
    by (simp add: evaluation rare_survey_def quarantined_visitor_def choose_loop.simps)
  note t1 = t [THEN conjunct1]
  note t2 = t [THEN conjunct2, THEN conjunct1]
  note t6 = t [THEN conjunct2, THEN conjunct2, THEN conjunct2, THEN conjunct2, THEN conjunct2,
    THEN conjunct1, THEN spec, THEN mp, OF e]
  note t7 = t [THEN conjunct2, THEN conjunct2, THEN conjunct2, THEN conjunct2, THEN conjunct2,
    THEN conjunct2, THEN mp, OF h, THEN spec, THEN mp, OF e]
  from h0 h t1 t2 e t7 t6 show ?thesis by (intro conjI)
qed

text \<open>
  Against claim C3 as stated. The returning visitor was quarantined for survey 2467 for
  one day and then for the session, and comes back after the day. The session store holds
  an entry for the survey that never expires. The check looks at the durable record only,
  finds it expired, draws, and returns true; \<^verbatim>\<open>chooseSurvey("2467")\<close> returns the survey.
\<close>

theorem session_entry_behind_expired_record_counterexample:
  "sessionStorage returning_visitor (storage_key demo_config (survey_id demo_survey))
     = Some (JsonRecord \<lparr>item_value = Str ''true'', item_expiry = None\<rparr>)
   \<and> unexpired_entry (clock returning_visitor (ticks returning_visitor))
        (storage_key demo_config (survey_id demo_survey)) returning_visitor
   \<and> fst (passesStorageRules demo_config demo_survey returning_visitor) = Inr True
   \<and> draws (snd (passesStorageRules demo_config demo_survey returning_visitor)) = 1
   \<and> fst (chooseSurvey demo_config (Scalar (Str ''2467'')) returning_visitor)
       = Inr (Some \<lparr>survey_id = Str ''2467'', priority = Number (Num 10),
                     percentage = Str ''100'', quarantine = Str ''21''\<rparr>)"
  by (simp add: evaluation unexpired_entry_def live_record_def demo_survey_def returning_visitor_def
      choose_loop.simps)

end
